theory Spec2Isabelle
  imports Complex_Main "HOL-Library.Char_ord" "HOL-Library.List_Lexorder"
begin

section \<open>Data model (types/index.ts, models/Task.ts, models/Notification.ts)\<close>

text \<open>
  Identifiers are the strings that \<^verbatim>\<open>ObjectId.toString()\<close> returns; dates are
  milliseconds since the epoch, which is what \<^verbatim>\<open>$lt\<close> and the sort compare.
  The field \<^verbatim>\<open>_id\<close> is \<open>user_id\<close>, \<open>task_id\<close> or \<open>notification_id\<close>; the
  notification's \<^verbatim>\<open>type\<close> and \<^verbatim>\<open>createdAt\<close> are \<open>ntype\<close> and \<open>notifiedAt\<close>; the
  fields of the other records carry a prefix where two records share a name. Of a
  user, the fields the task workflow reads are kept.
\<close>

type_synonym objectId = string
type_synonym date = int

datatype TaskPriority = LOW | MEDIUM | HIGH | URGENT

datatype TaskStatus = TODO | IN_PROGRESS | REVIEW | COMPLETED

text \<open>The string values of the two enums: the documents store these, and a sort by
  priority or status orders them as strings.\<close>

fun TaskPriority_value :: "TaskPriority \<Rightarrow> string" where
  "TaskPriority_value LOW = ''Low''"
| "TaskPriority_value MEDIUM = ''Medium''"
| "TaskPriority_value HIGH = ''High''"
| "TaskPriority_value URGENT = ''Urgent''"

fun TaskStatus_value :: "TaskStatus \<Rightarrow> string" where
  "TaskStatus_value TODO = ''To Do''"
| "TaskStatus_value IN_PROGRESS = ''In Progress''"
| "TaskStatus_value REVIEW = ''Review''"
| "TaskStatus_value COMPLETED = ''Completed''"

record IUser =
  user_id :: objectId
  email :: string
  name :: string
  isVerified :: bool

record ITask =
  task_id :: objectId
  title :: string
  description :: string
  dueDate :: date
  priority :: TaskPriority
  status :: TaskStatus
  creatorId :: objectId
  assignedToId :: "objectId option"
  createdAt :: date
  updatedAt :: date

datatype NotificationType = task_assigned | task_updated

record INotification =
  notification_id :: objectId
  userId :: objectId
  ntype :: NotificationType
  message :: string
  taskId :: objectId
  isRead :: bool
  notifiedAt :: date

text \<open>
  The three collections. A collection is the list of its documents in insertion order;
  \<^verbatim>\<open>findById\<close>, \<^verbatim>\<open>findByIdAndUpdate\<close> and \<^verbatim>\<open>findByIdAndDelete\<close> act on the
  first document with the identifier, \<^verbatim>\<open>updateMany\<close> and \<^verbatim>\<open>countDocuments\<close> on
  every matching one.
\<close>

record Store =
  users :: "IUser list"
  tasks :: "ITask list"
  notifications :: "INotification list"

text \<open>
  What a call can throw: \<^verbatim>\<open>new AppError(message, statusCode)\<close> of
  middleware/error.middleware.ts; the driver's rejection of a cursor with a negative
  skip; the \<^verbatim>\<open>ZodError\<close> of a schema, which lists the issues found as pairs of the
  field's path and the issue's code; and the two errors of the models:
  \<^verbatim>\<open>ValidationError\<close> with its message, when a validator of the task schema fails, and
  \<^verbatim>\<open>CastError\<close> with the value refused, when a string that is no ObjectId is used as
  one.
\<close>

datatype ZodIssueCode = invalid_type | too_small | too_big | invalid_enum_value

type_synonym issue = "string \<times> ZodIssueCode"

datatype error =
    AppError string nat
  | MongoServerError string
  | ZodError "issue list"
  | ValidationError string
  | CastError string

text \<open>
  The strings that stand for an ObjectId are those of 24 hexadecimal digits, in either
  case: the pattern \<^verbatim>\<open>/^[0-9a-fA-F]{24}$/\<close> of the schemas, and what the models cast.
  \<^verbatim>\<open>toString()\<close> of the ObjectId is the string in lower case, and the documents of
  the store hold their references in that spelling. \<open>castObjectId\<close> is the spelling
  under which a query by identifier looks a string up.
\<close>

definition isHexDigit :: "char \<Rightarrow> bool" where
  "isHexDigit c = (c \<in> set ''0123456789abcdefABCDEF'')"

definition isObjectIdString :: "string \<Rightarrow> bool" where
  "isObjectIdString s = (length s = 24 \<and> list_all isHexDigit s)"

definition lowerHex :: "char \<Rightarrow> char" where
  "lowerHex c =
     (if c = CHR ''A'' then CHR ''a'' else if c = CHR ''B'' then CHR ''b''
      else if c = CHR ''C'' then CHR ''c'' else if c = CHR ''D'' then CHR ''d''
      else if c = CHR ''E'' then CHR ''e'' else if c = CHR ''F'' then CHR ''f'' else c)"

definition castObjectId :: "string \<Rightarrow> objectId" where
  "castObjectId s = map lowerHex s"

text \<open>What a call takes from its environment: the clock (\<^verbatim>\<open>new Date()\<close>, the
  timestamps) and the identifiers the driver gives to the documents it inserts.\<close>

record Driver =
  now :: date
  newTaskId :: objectId
  newNotificationId :: objectId

section \<open>Notifications (repositories/notification.repository.ts)\<close>

text \<open>\<^verbatim>\<open>NotificationRepository.create\<close>: the recipient and the task are stored as
  \<^verbatim>\<open>new Types.ObjectId(...)\<close> of the strings given.\<close>

definition notification_create ::
  "Driver \<Rightarrow> INotification list \<Rightarrow> string \<Rightarrow> NotificationType \<Rightarrow> string \<Rightarrow> string
    \<Rightarrow> INotification list" where
  "notification_create drv ns uid ty msg tid =
     ns @ [\<lparr>notification_id = newNotificationId drv, userId = castObjectId uid, ntype = ty,
            message = msg, taskId = castObjectId tid, isRead = False, notifiedAt = now drv\<rparr>]"

text \<open>
  \<^verbatim>\<open>Notification.findByIdAndUpdate(id, { isRead: true }, { new: true })\<close>: the
  updated document, or null when no document has the identifier. The route of this
  call hands the path parameter to the model as it came, so the string may be no
  ObjectId, and then the model throws.
\<close>

fun setRead :: "INotification list \<Rightarrow> objectId \<Rightarrow> INotification option \<times> INotification list" where
  "setRead [] i = (None, [])"
| "setRead (n # ns) i =
     (if notification_id n = i then (Some (n\<lparr>isRead := True\<rparr>), n\<lparr>isRead := True\<rparr> # ns)
      else (fst (setRead ns i), n # snd (setRead ns i)))"

definition markAsRead ::
  "INotification list \<Rightarrow> string \<Rightarrow> error + INotification option \<times> INotification list" where
  "markAsRead ns i =
     (if isObjectIdString i then Inr (setRead ns (castObjectId i))
      else Inl (CastError i))"

text \<open>\<^verbatim>\<open>Notification.updateMany({ userId, isRead: false }, { isRead: true })\<close> and its
  \<^verbatim>\<open>modifiedCount\<close>.\<close>

definition markAllAsRead :: "INotification list \<Rightarrow> objectId \<Rightarrow> nat \<times> INotification list" where
  "markAllAsRead ns uid =
     (length (filter (\<lambda>n. userId n = uid \<and> isRead n = False) ns),
      map (\<lambda>n. if userId n = uid \<and> isRead n = False then n\<lparr>isRead := True\<rparr> else n) ns)"

text \<open>\<^verbatim>\<open>Notification.countDocuments({ userId, isRead: false })\<close>.\<close>

definition getUnreadCount :: "INotification list \<Rightarrow> objectId \<Rightarrow> nat" where
  "getUnreadCount ns uid = length (filter (\<lambda>n. userId n = uid \<and> isRead n = False) ns)"

text \<open>
  services/notification.service.ts and controllers/notification.controller.ts. The
  request carries the authenticated caller (\<^verbatim>\<open>req.user\<close>, set by the authenticate
  middleware of the route) and the path parameter; the response is its status code
  and message.
\<close>

record AuthRequest =
  req_userId :: objectId
  req_params_id :: string

definition service_markAsRead :: "Store \<Rightarrow> string \<Rightarrow> (error + INotification option) \<times> Store" where
  "service_markAsRead s notificationId =
     (case markAsRead (notifications s) notificationId of
        Inl e \<Rightarrow> (Inl e, s)
      | Inr (found, ns) \<Rightarrow> (Inr found, s\<lparr>notifications := ns\<rparr>))"

text \<open>\<^verbatim>\<open>errorHandler\<close> of middleware/error.middleware.ts: the status and the message
  of the response to an error that a controller passed on.\<close>

fun errorHandler :: "error \<Rightarrow> nat \<times> string" where
  "errorHandler (AppError msg code) = (code, msg)"
| "errorHandler (ValidationError msg) = (400, msg)"
| "errorHandler (CastError v) = (400, ''Invalid ID format'')"
| "errorHandler (MongoServerError msg) = (500, ''Internal server error'')"
| "errorHandler (ZodError issues) = (500, ''Internal server error'')"

definition controller_markAsRead :: "Store \<Rightarrow> AuthRequest \<Rightarrow> (nat \<times> string) \<times> Store" where
  "controller_markAsRead s req =
     (case service_markAsRead s (req_params_id req) of
        (Inl e, s') \<Rightarrow> (errorHandler e, s')
      | (Inr found, s') \<Rightarrow> ((200, ''Notification marked as read''), s'))"

definition controller_markAllAsRead :: "Store \<Rightarrow> AuthRequest \<Rightarrow> (nat \<times> nat) \<times> Store" where
  "controller_markAllAsRead s req =
     ((200, fst (markAllAsRead (notifications s) (req_userId req))),
      s\<lparr>notifications := snd (markAllAsRead (notifications s) (req_userId req))\<rparr>)"

section \<open>Task input contracts (dtos/task.dto.ts)\<close>

text \<open>
  The services take the outputs of the zod schemas. An optional field is an
  \<open>option\<close> (\<open>None\<close> for a key the object does not have); the update schema's
  \<^verbatim>\<open>assignedToId\<close> is also nullable, so it has three shapes: absent, \<^verbatim>\<open>null\<close>, or an
  identifier. The update schema has no creator field, and zod drops the keys a schema
  does not name.
\<close>

datatype 'a nullable = Null | Value 'a

record CreateTaskDto =
  c_title :: string
  c_description :: string
  c_dueDate :: date
  c_priority :: "TaskPriority option"
  c_status :: "TaskStatus option"
  c_assignedToId :: "objectId option"

record UpdateTaskDto =
  u_title :: "string option"
  u_description :: "string option"
  u_dueDate :: "date option"
  u_priority :: "TaskPriority option"
  u_status :: "TaskStatus option"
  u_assignedToId :: "objectId nullable option"

text \<open>The pattern that the update schema puts on \<^verbatim>\<open>assignedToId\<close>; the create schema
  puts the same one on its own.\<close>

definition updateTaskSchema_assignedToId :: "UpdateTaskDto \<Rightarrow> bool" where
  "updateTaskSchema_assignedToId dto =
     (case u_assignedToId dto of Some (Value a) \<Rightarrow> isObjectIdString a | _ \<Rightarrow> True)"

text \<open>A string in a condition (\<^verbatim>\<open>if (data.assignedToId)\<close>) counts as true when it is
  not empty.\<close>

definition truthy :: "string \<Rightarrow> bool" where
  "truthy s = (s \<noteq> [])"

text \<open>
  \<^verbatim>\<open>data.assignedToId !== previousAssigneeId\<close>, where the left side is \<^verbatim>\<open>null\<close> or a
  string and the right side is \<^verbatim>\<open>undefined\<close> (\<open>None\<close>) or a string. Strict inequality
  holds between \<^verbatim>\<open>null\<close> and \<^verbatim>\<open>undefined\<close>, and between either and a string.
\<close>

fun strict_neq :: "objectId nullable \<Rightarrow> objectId option \<Rightarrow> bool" where
  "strict_neq Null previous = True"
| "strict_neq (Value a) None = True"
| "strict_neq (Value a) (Some b) = (a \<noteq> b)"

section \<open>Repositories (repositories/user.repository.ts, repositories/task.repository.ts)\<close>

text \<open>
  \<^verbatim>\<open>findById\<close> populates the creator and assignee references with the users' display
  data; the \<^verbatim>\<open>_id\<close> of a populated reference is the reference, and the user
  collection has no delete, so \<^verbatim>\<open>task.creatorId._id.toString()\<close> is the stored creator
  and \<^verbatim>\<open>task.assignedToId?._id?.toString()\<close> the stored assignee, \<^verbatim>\<open>undefined\<close> when the
  field is absent or \<^verbatim>\<open>null\<close>.

  A query by identifier casts the string it is given, so it finds the document under
  any spelling of the identifier. The strings that reach these queries passed
  \<^verbatim>\<open>taskIdSchema\<close> or the pattern on \<^verbatim>\<open>assignedToId\<close>, or are identifiers that the
  store gave out; for a string that is no ObjectId, which the model would refuse with
  a CastError, the lookups here find nothing.
\<close>

definition user_findById :: "IUser list \<Rightarrow> string \<Rightarrow> IUser option" where
  "user_findById us i = find (\<lambda>u. user_id u = castObjectId i) us"

definition findById :: "ITask list \<Rightarrow> string \<Rightarrow> ITask option" where
  "findById ts i = find (\<lambda>t. task_id t = castObjectId i) ts"

text \<open>
  The validators of the task schema run on \<^verbatim>\<open>save()\<close> and, with
  \<^verbatim>\<open>runValidators: true\<close>, on the keys of an update, before anything is written. The
  schemas of the contracts check the length of a title or description before they trim
  it, so a value of white space alone arrives as the empty string, and \<^verbatim>\<open>required\<close>
  refuses it. The other validators repeat what the contracts checked, and the trim of
  the schema leaves a trimmed string as it is.
\<close>

definition requiredFailures :: "string option \<Rightarrow> string option \<Rightarrow> string list" where
  "requiredFailures ti de =
     (if ti = Some [] then [''title: Title is required''] else []) @
     (if de = Some [] then [''description: Description is required''] else [])"

fun joinComma :: "string list \<Rightarrow> string" where
  "joinComma [] = []"
| "joinComma [x] = x"
| "joinComma (x # y # ys) = x @ '', '' @ joinComma (y # ys)"

text \<open>\<^verbatim>\<open>new Task(data).save()\<close>.\<close>

definition task_create :: "ITask list \<Rightarrow> ITask \<Rightarrow> error + ITask list" where
  "task_create ts t =
     (case requiredFailures (Some (title t)) (Some (description t)) of
        [] \<Rightarrow> Inr (ts @ [t])
      | failures \<Rightarrow> Inl (ValidationError (''Task validation failed: '' @ joinComma failures)))"

text \<open>What \<^verbatim>\<open>findByIdAndUpdate(id, data, { new: true })\<close> does to the document: each
  key of the patch replaces the field, the assignee is stored as the ObjectId of the
  string, \<^verbatim>\<open>null\<close> clears it, and the timestamp option of the schema sets
  \<^verbatim>\<open>updatedAt\<close>.\<close>

definition applyUpdate :: "date \<Rightarrow> UpdateTaskDto \<Rightarrow> ITask \<Rightarrow> ITask" where
  "applyUpdate nw dto t =
     t\<lparr>title := (case u_title dto of None \<Rightarrow> title t | Some v \<Rightarrow> v),
       description := (case u_description dto of None \<Rightarrow> description t | Some v \<Rightarrow> v),
       dueDate := (case u_dueDate dto of None \<Rightarrow> dueDate t | Some v \<Rightarrow> v),
       priority := (case u_priority dto of None \<Rightarrow> priority t | Some v \<Rightarrow> v),
       status := (case u_status dto of None \<Rightarrow> status t | Some v \<Rightarrow> v),
       assignedToId := (case u_assignedToId dto of None \<Rightarrow> assignedToId t
                        | Some Null \<Rightarrow> None | Some (Value a) \<Rightarrow> Some (castObjectId a)),
       updatedAt := nw\<rparr>"

fun updateFirst :: "date \<Rightarrow> ITask list \<Rightarrow> objectId \<Rightarrow> UpdateTaskDto \<Rightarrow> ITask option \<times> ITask list" where
  "updateFirst nw [] i dto = (None, [])"
| "updateFirst nw (t # ts) i dto =
     (if task_id t = i then (Some (applyUpdate nw dto t), applyUpdate nw dto t # ts)
      else (fst (updateFirst nw ts i dto), t # snd (updateFirst nw ts i dto)))"

definition updateById ::
  "date \<Rightarrow> ITask list \<Rightarrow> string \<Rightarrow> UpdateTaskDto \<Rightarrow> error + ITask option \<times> ITask list" where
  "updateById nw ts i dto =
     (case requiredFailures (u_title dto) (u_description dto) of
        [] \<Rightarrow> Inr (updateFirst nw ts (castObjectId i) dto)
      | failures \<Rightarrow> Inl (ValidationError (''Validation failed: '' @ joinComma failures)))"

fun deleteFirst :: "ITask list \<Rightarrow> objectId \<Rightarrow> ITask option \<times> ITask list" where
  "deleteFirst [] i = (None, [])"
| "deleteFirst (t # ts) i =
     (if task_id t = i then (Some t, ts)
      else (fst (deleteFirst ts i), t # snd (deleteFirst ts i)))"

definition deleteById :: "ITask list \<Rightarrow> string \<Rightarrow> ITask option \<times> ITask list" where
  "deleteById ts i = deleteFirst ts (castObjectId i)"

section \<open>Task service (services/task.service.ts): create, update, delete\<close>

text \<open>
  Each operation takes the store and returns the outcome with the store after the
  call. A \<^verbatim>\<open>throw\<close> is the outcome \<open>Inl\<close>; the store beside it is the one at the
  moment of the throw. The caller's identifier is the \<^verbatim>\<open>userId\<close> of the token, which
  is \<^verbatim>\<open>_id.toString()\<close> of the user; the services compare it with other identifiers as
  strings, by \<^verbatim>\<open>!==\<close>.
\<close>

definition createTask ::
  "Driver \<Rightarrow> Store \<Rightarrow> CreateTaskDto \<Rightarrow> objectId \<Rightarrow> (error + ITask option) \<times> Store" where
  "createTask drv s dto creator =
     (case (case c_assignedToId dto of
              None \<Rightarrow> None
            | Some a \<Rightarrow>
                if truthy a then
                  (case user_findById (users s) a of
                     None \<Rightarrow> Some (AppError ''Assigned user not found'' 404)
                   | Some assignee \<Rightarrow>
                       if \<not> isVerified assignee
                       then Some (AppError ''Cannot assign task to unverified user'' 400)
                       else None)
                else None) of
        Some e \<Rightarrow> (Inl e, s)
      | None \<Rightarrow>
          (let task = \<lparr>task_id = newTaskId drv, title = c_title dto,
                       description = c_description dto, dueDate = c_dueDate dto,
                       priority = (case c_priority dto of None \<Rightarrow> MEDIUM | Some p \<Rightarrow> p),
                       status = (case c_status dto of None \<Rightarrow> TODO | Some st \<Rightarrow> st),
                       creatorId = creator,
                       assignedToId = map_option castObjectId (c_assignedToId dto),
                       createdAt = now drv, updatedAt = now drv\<rparr>
           in case task_create (tasks s) task of
                Inl e \<Rightarrow> (Inl e, s)
              | Inr ts \<Rightarrow>
                  (Inr (findById ts (task_id task)),
                   s\<lparr>tasks := ts,
                     notifications :=
                       (case c_assignedToId dto of
                          None \<Rightarrow> notifications s
                        | Some a \<Rightarrow>
                            if truthy a \<and> a \<noteq> creator
                            then notification_create drv (notifications s) a task_assigned
                                   (''You have been assigned a new task: '' @ title task)
                                   (task_id task)
                            else notifications s)\<rparr>)))"

record UpdateResult =
  task :: ITask
  previousAssigneeId :: "objectId option"
  assigneeChanged :: bool

definition updateTask ::
  "Driver \<Rightarrow> Store \<Rightarrow> string \<Rightarrow> UpdateTaskDto \<Rightarrow> objectId \<Rightarrow> (error + UpdateResult) \<times> Store" where
  "updateTask drv s tid dto uid =
     (case findById (tasks s) tid of
        None \<Rightarrow> (Inl (AppError ''Task not found'' 404), s)
      | Some t \<Rightarrow>
          if creatorId t \<noteq> uid
          then (Inl (AppError ''You are not authorized to update this task'' 403), s)
          else
            (case (case u_assignedToId dto of
                     Some (Value a) \<Rightarrow>
                       (case user_findById (users s) a of
                          None \<Rightarrow> Some (AppError ''Assigned user not found'' 404)
                        | Some assignee \<Rightarrow>
                            if \<not> isVerified assignee
                            then Some (AppError ''Cannot assign task to unverified user'' 400)
                            else None)
                   | _ \<Rightarrow> None) of
               Some e \<Rightarrow> (Inl e, s)
             | None \<Rightarrow>
                 (let previous = assignedToId t;
                      changed = (case u_assignedToId dto of
                                   None \<Rightarrow> False
                                 | Some v \<Rightarrow> strict_neq v previous)
                  in case updateById (now drv) (tasks s) tid dto of
                       Inl e \<Rightarrow> (Inl e, s)
                     | Inr (None, ts) \<Rightarrow>
                         (Inl (AppError ''Failed to update task'' 500), s\<lparr>tasks := ts\<rparr>)
                     | Inr (Some updatedTask, ts) \<Rightarrow>
                         (Inr \<lparr>task = updatedTask, previousAssigneeId = previous,
                               assigneeChanged = changed\<rparr>,
                          s\<lparr>tasks := ts,
                            notifications :=
                              (case u_assignedToId dto of
                                 Some (Value a) \<Rightarrow>
                                   if changed \<and> truthy a \<and> a \<noteq> uid
                                   then notification_create drv (notifications s) a task_assigned
                                          (''You have been assigned a task: '' @ title updatedTask)
                                          (task_id updatedTask)
                                   else notifications s
                               | _ \<Rightarrow> notifications s)\<rparr>))))"

definition deleteTask :: "Store \<Rightarrow> string \<Rightarrow> objectId \<Rightarrow> (error + ITask) \<times> Store" where
  "deleteTask s tid uid =
     (case findById (tasks s) tid of
        None \<Rightarrow> (Inl (AppError ''Task not found'' 404), s)
      | Some t \<Rightarrow>
          if creatorId t \<noteq> uid
          then (Inl (AppError ''You are not authorized to delete this task'' 403), s)
          else (Inr t, s\<lparr>tasks := snd (deleteById (tasks s) tid)\<rparr>))"

section \<open>Listing tasks (repositories/task.repository.ts, services/task.service.ts)\<close>

datatype SortBy = by_dueDate | by_createdAt | by_priority | by_status | by_title

datatype SortOrder = asc | desc

record TaskFilters =
  f_status :: "TaskStatus option"
  f_priority :: "TaskPriority option"
  f_creatorId :: "string option"
  f_assignedToId :: "string option"
  f_overdue :: "bool option"

record TaskQueryOptions =
  o_page :: int
  o_limit :: int
  o_sortBy :: SortBy
  o_sortOrder :: SortOrder
  o_filters :: "TaskFilters option"

text \<open>A number that a division can return: \<^verbatim>\<open>total / limit\<close> is infinite or NaN when
  the limit is 0.\<close>

datatype jsnum = Num int | Infinity | NaN

record Pagination =
  total :: int
  page :: int
  limit :: int
  totalPages :: jsnum
  hasNextPage :: bool
  hasPrevPage :: bool

record PaginatedResult =
  data :: "ITask list"
  pagination :: Pagination

text \<open>
  The filter object that the repository hands to \<^verbatim>\<open>Task.find\<close> and
  \<^verbatim>\<open>Task.countDocuments\<close>. A key is set once; a later assignment to \<^verbatim>\<open>query.status\<close>
  replaces an earlier one. \<^verbatim>\<open>{ $ne: v }\<close> and \<^verbatim>\<open>{ $lt: v }\<close> are the two operators
  used, \<^verbatim>\<open>$or\<close> holds the two alternatives of the overdue query of a user.
\<close>

datatype status_cond = Is TaskStatus | Ne TaskStatus

datatype date_cond = Lt date

datatype or_clause = CreatorIs objectId | AssigneeIs objectId

record FilterQuery =
  query_status :: "status_cond option"
  query_priority :: "TaskPriority option"
  query_creatorId :: "objectId option"
  query_assignedToId :: "objectId option"
  query_dueDate :: "date_cond option"
  query_or :: "or_clause list option"

definition emptyQuery :: FilterQuery where
  "emptyQuery = \<lparr>query_status = None, query_priority = None, query_creatorId = None,
                  query_assignedToId = None, query_dueDate = None, query_or = None\<rparr>"

fun clause_holds :: "or_clause \<Rightarrow> ITask \<Rightarrow> bool" where
  "clause_holds (CreatorIs u) t = (creatorId t = u)"
| "clause_holds (AssigneeIs u) t = (assignedToId t = Some u)"

definition matches :: "FilterQuery \<Rightarrow> ITask \<Rightarrow> bool" where
  "matches q t =
     ((case query_status q of None \<Rightarrow> True | Some (Is v) \<Rightarrow> status t = v
        | Some (Ne v) \<Rightarrow> status t \<noteq> v) \<and>
      (case query_priority q of None \<Rightarrow> True | Some v \<Rightarrow> priority t = v) \<and>
      (case query_creatorId q of None \<Rightarrow> True | Some v \<Rightarrow> creatorId t = v) \<and>
      (case query_assignedToId q of None \<Rightarrow> True | Some v \<Rightarrow> assignedToId t = Some v) \<and>
      (case query_dueDate q of None \<Rightarrow> True | Some (Lt v) \<Rightarrow> dueDate t < v) \<and>
      (case query_or q of None \<Rightarrow> True | Some cs \<Rightarrow> list_ex (\<lambda>c. clause_holds c t) cs))"

text \<open>\<^verbatim>\<open>sort[sortBy] = sortOrder === 'asc' ? 1 : -1\<close>: the documents in the order of the
  field, the enums by their string values; a descending sort is the ascending one
  reversed.\<close>

definition sortTasks :: "SortBy \<Rightarrow> SortOrder \<Rightarrow> ITask list \<Rightarrow> ITask list" where
  "sortTasks sb so ts =
     (let sorted_asc =
        (case sb of
           by_dueDate \<Rightarrow> sort_key dueDate ts
         | by_createdAt \<Rightarrow> sort_key createdAt ts
         | by_priority \<Rightarrow> sort_key (\<lambda>t. TaskPriority_value (priority t)) ts
         | by_status \<Rightarrow> sort_key (\<lambda>t. TaskStatus_value (status t)) ts
         | by_title \<Rightarrow> sort_key title ts)
      in if so = asc then sorted_asc else rev sorted_asc)"

text \<open>\<^verbatim>\<open>.skip(skip).limit(limit)\<close> on the cursor: the server refuses a negative skip,
  a limit of 0 is no limit, and a negative limit counts as its absolute value.\<close>

definition skip_limit :: "int \<Rightarrow> int \<Rightarrow> 'a list \<Rightarrow> error + 'a list" where
  "skip_limit sk lmt xs =
     (if sk < 0 then Inl (MongoServerError ''Skip value must be non-negative'')
      else Inr (if lmt = 0 then drop (nat sk) xs else take (nat \<bar>lmt\<bar>) (drop (nat sk) xs)))"

text \<open>\<^verbatim>\<open>Math.ceil(total / limit)\<close> for a count \<open>tot\<close>, which is never negative. The
  quotient is the exact one: the rounding of a double is not modelled, and cannot show
  for the counts a collection holds.\<close>

definition ceil_div :: "int \<Rightarrow> int \<Rightarrow> jsnum" where
  "ceil_div tot lmt =
     (if lmt = 0 then (if tot = 0 then NaN else Infinity)
      else Num \<lceil>real_of_int tot / real_of_int lmt\<rceil>)"

text \<open>\<^verbatim>\<open>page < totalPages\<close>: false against NaN, true against infinity.\<close>

fun less_than :: "int \<Rightarrow> jsnum \<Rightarrow> bool" where
  "less_than p (Num n) = (p < n)"
| "less_than p Infinity = True"
| "less_than p NaN = False"

text \<open>Lines 68 to 90 of the repository: the filter object built from the filters. A
  string filter that is empty counts as absent, and only \<^verbatim>\<open>overdue: true\<close> adds the
  overdue conditions, which replace a status condition set before.\<close>

definition buildQuery :: "date \<Rightarrow> TaskFilters option \<Rightarrow> FilterQuery" where
  "buildQuery nw filters =
     (let q0 = emptyQuery;
          q1 = (case filters of Some f \<Rightarrow>
                  (case f_status f of Some v \<Rightarrow> q0\<lparr>query_status := Some (Is v)\<rparr> | None \<Rightarrow> q0)
                | None \<Rightarrow> q0);
          q2 = (case filters of Some f \<Rightarrow>
                  (case f_priority f of Some v \<Rightarrow> q1\<lparr>query_priority := Some v\<rparr> | None \<Rightarrow> q1)
                | None \<Rightarrow> q1);
          q3 = (case filters of Some f \<Rightarrow>
                  (case f_creatorId f of
                     Some v \<Rightarrow> if truthy v then q2\<lparr>query_creatorId := Some v\<rparr> else q2
                   | None \<Rightarrow> q2)
                | None \<Rightarrow> q2);
          q4 = (case filters of Some f \<Rightarrow>
                  (case f_assignedToId f of
                     Some v \<Rightarrow> if truthy v then q3\<lparr>query_assignedToId := Some v\<rparr> else q3
                   | None \<Rightarrow> q3)
                | None \<Rightarrow> q3);
          q5 = (case filters of Some f \<Rightarrow>
                  (if f_overdue f = Some True
                   then q4\<lparr>query_dueDate := Some (Lt nw), query_status := Some (Ne COMPLETED)\<rparr>
                   else q4)
                | None \<Rightarrow> q4)
      in q5)"

text \<open>The two queries of a page and the pagination object computed from them, shared
  by \<^verbatim>\<open>findWithPagination\<close> and \<^verbatim>\<open>findOverdueForUser\<close>, which repeat these lines.\<close>

definition runPage ::
  "ITask list \<Rightarrow> FilterQuery \<Rightarrow> TaskQueryOptions \<Rightarrow> error + PaginatedResult" where
  "runPage ts q opts =
     (let skip = (o_page opts - 1) * o_limit opts;
          tot = int (length (filter (matches q) ts));
          pages = ceil_div tot (o_limit opts)
      in case skip_limit skip (o_limit opts)
                (sortTasks (o_sortBy opts) (o_sortOrder opts) (filter (matches q) ts)) of
           Inl e \<Rightarrow> Inl e
         | Inr found \<Rightarrow>
             Inr \<lparr>data = found,
                  pagination = \<lparr>total = tot, page = o_page opts, limit = o_limit opts,
                                totalPages = pages,
                                hasNextPage = less_than (o_page opts) pages,
                                hasPrevPage = (o_page opts > 1)\<rparr>\<rparr>)"

definition findWithPagination ::
  "date \<Rightarrow> ITask list \<Rightarrow> TaskQueryOptions \<Rightarrow> error + PaginatedResult" where
  "findWithPagination nw ts opts = runPage ts (buildQuery nw (o_filters opts)) opts"

definition findOverdueForUser ::
  "date \<Rightarrow> ITask list \<Rightarrow> objectId \<Rightarrow> TaskQueryOptions \<Rightarrow> error + PaginatedResult" where
  "findOverdueForUser nw ts uid opts =
     runPage ts
       (emptyQuery\<lparr>query_or := Some [CreatorIs uid, AssigneeIs uid],
                   query_dueDate := Some (Lt nw),
                   query_status := Some (Ne COMPLETED)\<rparr>)
       opts"

definition noFilters :: TaskFilters where
  "noFilters = \<lparr>f_status = None, f_priority = None, f_creatorId = None,
                 f_assignedToId = None, f_overdue = None\<rparr>"

definition findByAssignee ::
  "date \<Rightarrow> ITask list \<Rightarrow> objectId \<Rightarrow> TaskQueryOptions \<Rightarrow> error + PaginatedResult" where
  "findByAssignee nw ts uid opts =
     findWithPagination nw ts (opts\<lparr>o_filters := Some (noFilters\<lparr>f_assignedToId := Some uid\<rparr>)\<rparr>)"

definition findByCreator ::
  "date \<Rightarrow> ITask list \<Rightarrow> objectId \<Rightarrow> TaskQueryOptions \<Rightarrow> error + PaginatedResult" where
  "findByCreator nw ts uid opts =
     findWithPagination nw ts (opts\<lparr>o_filters := Some (noFilters\<lparr>f_creatorId := Some uid\<rparr>)\<rparr>)"

section \<open>The list query (dtos/task.dto.ts, routes/task.routes.ts)\<close>

record TaskQueryDto =
  q_page :: int
  q_limit :: int
  q_sortBy :: SortBy
  q_sortOrder :: SortOrder
  q_status :: "TaskStatus option"
  q_priority :: "TaskPriority option"

text \<open>\<^verbatim>\<open>TaskService.getTasks\<close>: only the status and the priority of the query become
  filters.\<close>

definition getTasks :: "date \<Rightarrow> ITask list \<Rightarrow> TaskQueryDto \<Rightarrow> error + PaginatedResult" where
  "getTasks nw ts query =
     (let filters0 = noFilters;
          filters1 = (case q_status query of Some v \<Rightarrow> filters0\<lparr>f_status := Some v\<rparr>
                      | None \<Rightarrow> filters0);
          filters2 = (case q_priority query of Some v \<Rightarrow> filters1\<lparr>f_priority := Some v\<rparr>
                      | None \<Rightarrow> filters1)
      in findWithPagination nw ts
           \<lparr>o_page = q_page query, o_limit = q_limit query, o_sortBy = q_sortBy query,
            o_sortOrder = q_sortOrder query, o_filters = Some filters2\<rparr>)"

text \<open>\<^verbatim>\<open>TaskService.getOverdueTasks\<close>. The schema's defaults make \<^verbatim>\<open>query.sortBy\<close> and
  \<^verbatim>\<open>query.sortOrder\<close> non-empty strings, so \<^verbatim>\<open>query.sortBy || 'dueDate'\<close> is
  \<^verbatim>\<open>query.sortBy\<close>.\<close>

definition getOverdueTasks ::
  "date \<Rightarrow> ITask list \<Rightarrow> objectId \<Rightarrow> TaskQueryDto \<Rightarrow> error + PaginatedResult" where
  "getOverdueTasks nw ts uid query =
     findOverdueForUser nw ts uid
       \<lparr>o_page = q_page query, o_limit = q_limit query, o_sortBy = q_sortBy query,
        o_sortOrder = q_sortOrder query, o_filters = None\<rparr>"

fun SortBy_value :: "SortBy \<Rightarrow> string" where
  "SortBy_value by_dueDate = ''dueDate''"
| "SortBy_value by_createdAt = ''createdAt''"
| "SortBy_value by_priority = ''priority''"
| "SortBy_value by_status = ''status''"
| "SortBy_value by_title = ''title''"

fun SortOrder_value :: "SortOrder \<Rightarrow> string" where
  "SortOrder_value asc = ''asc''"
| "SortOrder_value desc = ''desc''"

text \<open>
  \<^verbatim>\<open>taskQuerySchema\<close>, field by field. The query string is a map from keys to string
  values. \<^verbatim>\<open>parseInt(val, 10)\<close> is the language's; the schema is written over any
  function \<open>parseInt\<close> from strings to an integer or NaN (\<open>None\<close>), and \<open>parseInt10\<close>
  below is that function on ASCII input. \<^verbatim>\<open>z.number()\<close> refuses NaN.
\<close>

definition schema_page :: "(string \<Rightarrow> int option) \<Rightarrow> string option \<Rightarrow> issue list + int" where
  "schema_page parseInt v =
     (case parseInt (case v of None \<Rightarrow> ''1'' | Some x \<Rightarrow> x) of
        None \<Rightarrow> Inl [(''page'', invalid_type)]
      | Some n \<Rightarrow> if n < 1 then Inl [(''page'', too_small)] else Inr n)"

definition schema_limit :: "(string \<Rightarrow> int option) \<Rightarrow> string option \<Rightarrow> issue list + int" where
  "schema_limit parseInt v =
     (case parseInt (case v of None \<Rightarrow> ''10'' | Some x \<Rightarrow> x) of
        None \<Rightarrow> Inl [(''limit'', invalid_type)]
      | Some n \<Rightarrow>
          if n < 1 then Inl [(''limit'', too_small)]
          else if n > 100 then Inl [(''limit'', too_big)]
          else Inr n)"

definition schema_sortBy :: "string option \<Rightarrow> issue list + SortBy" where
  "schema_sortBy v =
     (case find (\<lambda>e. SortBy_value e = (case v of None \<Rightarrow> ''createdAt'' | Some x \<Rightarrow> x))
             [by_dueDate, by_createdAt, by_priority, by_status, by_title] of
        None \<Rightarrow> Inl [(''sortBy'', invalid_enum_value)]
      | Some e \<Rightarrow> Inr e)"

definition schema_sortOrder :: "string option \<Rightarrow> issue list + SortOrder" where
  "schema_sortOrder v =
     (case find (\<lambda>e. SortOrder_value e = (case v of None \<Rightarrow> ''desc'' | Some x \<Rightarrow> x))
             [asc, desc] of
        None \<Rightarrow> Inl [(''sortOrder'', invalid_enum_value)]
      | Some e \<Rightarrow> Inr e)"

definition schema_status :: "string option \<Rightarrow> issue list + TaskStatus option" where
  "schema_status v =
     (case v of
        None \<Rightarrow> Inr None
      | Some x \<Rightarrow>
          (case find (\<lambda>e. TaskStatus_value e = x) [TODO, IN_PROGRESS, REVIEW, COMPLETED] of
             None \<Rightarrow> Inl [(''status'', invalid_enum_value)]
           | Some e \<Rightarrow> Inr (Some e)))"

definition schema_priority :: "string option \<Rightarrow> issue list + TaskPriority option" where
  "schema_priority v =
     (case v of
        None \<Rightarrow> Inr None
      | Some x \<Rightarrow>
          (case find (\<lambda>e. TaskPriority_value e = x) [LOW, MEDIUM, HIGH, URGENT] of
             None \<Rightarrow> Inl [(''priority'', invalid_enum_value)]
           | Some e \<Rightarrow> Inr (Some e)))"

text \<open>\<^verbatim>\<open>z.object\<close> checks every field and gathers the issues of all of them.
  \<^verbatim>\<open>validate\<close> runs the schema with \<^verbatim>\<open>parseAsync\<close>, under which the enum fields report
  at once and the piped fields, page and limit, after them.\<close>

definition field :: "issue list + ('a \<Rightarrow> 'b) \<Rightarrow> issue list + 'a \<Rightarrow> issue list + 'b" where
  "field f x =
     (case f of
        Inl e1 \<Rightarrow> (case x of Inl e2 \<Rightarrow> Inl (e1 @ e2) | Inr v \<Rightarrow> Inl e1)
      | Inr g \<Rightarrow> (case x of Inl e2 \<Rightarrow> Inl e2 | Inr v \<Rightarrow> Inr (g v)))"

definition taskQuerySchema ::
  "(string \<Rightarrow> int option) \<Rightarrow> (string \<rightharpoonup> string) \<Rightarrow> error + TaskQueryDto" where
  "taskQuerySchema parseInt raw =
     (case field (field (field (field (field (field
               (Inr (\<lambda>sb so st pr p l.
                      \<lparr>q_page = p, q_limit = l, q_sortBy = sb, q_sortOrder = so,
                       q_status = st, q_priority = pr\<rparr>))
               (schema_sortBy (raw ''sortBy'')))
               (schema_sortOrder (raw ''sortOrder'')))
               (schema_status (raw ''status'')))
               (schema_priority (raw ''priority'')))
               (schema_page parseInt (raw ''page'')))
               (schema_limit parseInt (raw ''limit'')) of
        Inl issues \<Rightarrow> Inl (ZodError issues)
      | Inr query \<Rightarrow> Inr query)"

text \<open>\<^verbatim>\<open>GET /api/tasks\<close>: \<^verbatim>\<open>validate(taskQuerySchema, 'query')\<close> replaces the query by
  the schema's output or answers with the validation failure, then the controller
  passes the query to the service.\<close>

definition listTasks ::
  "(string \<Rightarrow> int option) \<Rightarrow> date \<Rightarrow> Store \<Rightarrow> (string \<rightharpoonup> string) \<Rightarrow> error + PaginatedResult" where
  "listTasks parseInt nw s raw =
     (case taskQuerySchema parseInt raw of
        Inl e \<Rightarrow> Inl e
      | Inr query \<Rightarrow> getTasks nw (tasks s) query)"

text \<open>\<^verbatim>\<open>parseInt(val, 10)\<close> on ASCII strings: leading white space is skipped, a sign
  may follow, then the longest run of decimal digits is read; no digit gives NaN. The
  value here is the exact integer; \<^verbatim>\<open>parseInt\<close> returns the nearest double, which is
  the same number up to \<open>2 ^ 53\<close>.\<close>

definition isWhiteSpace :: "char \<Rightarrow> bool" where
  "isWhiteSpace c = (c \<in> set [CHR 0x09, CHR 0x0A, CHR 0x0B, CHR 0x0C, CHR 0x0D, CHR 0x20])"

definition isDigit :: "char \<Rightarrow> bool" where
  "isDigit c = (c \<in> set ''0123456789'')"

definition digitValue :: "char \<Rightarrow> int" where
  "digitValue c = int (of_char c) - 48"

definition parseInt10 :: "string \<Rightarrow> int option" where
  "parseInt10 s =
     (let t = dropWhile isWhiteSpace s;
          negative = (case t of c # r \<Rightarrow> c = CHR ''-'' | [] \<Rightarrow> False);
          signed = (case t of c # r \<Rightarrow> c = CHR ''-'' \<or> c = CHR ''+'' | [] \<Rightarrow> False);
          digits = takeWhile isDigit (if signed then tl t else t);
          magnitude = foldl (\<lambda>a c. 10 * a + digitValue c) 0 digits
      in if digits = [] then None
         else Some (if negative then - magnitude else magnitude))"

section \<open>A small store for concrete runs\<close>

text \<open>Three users, of whom carol has not verified her account; two tasks, the first
  created by alice and unassigned, the second created by bob and assigned to alice;
  three notifications.\<close>

definition alice :: objectId where "alice = ''507f1f77bcf86cd799439011''"
definition bob :: objectId where "bob = ''507f1f77bcf86cd799439012''"
definition carol :: objectId where "carol = ''507f1f77bcf86cd799439013''"

definition task1 :: ITask where
  "task1 = \<lparr>task_id = ''65a000000000000000000001'', title = ''Write report'',
            description = ''Quarterly numbers'', dueDate = 1000, priority = HIGH,
            status = TODO, creatorId = alice, assignedToId = None,
            createdAt = 100, updatedAt = 100\<rparr>"

definition task2 :: ITask where
  "task2 = \<lparr>task_id = ''65a000000000000000000002'', title = ''Book venue'',
            description = ''For the offsite'', dueDate = 3000, priority = LOW,
            status = IN_PROGRESS, creatorId = bob, assignedToId = Some alice,
            createdAt = 200, updatedAt = 200\<rparr>"

definition exampleStore :: Store where
  "exampleStore =
     \<lparr>users = [\<lparr>user_id = alice, email = ''alice@example.com'', name = ''Alice'', isVerified = True\<rparr>,
               \<lparr>user_id = bob, email = ''bob@example.com'', name = ''Bob'', isVerified = True\<rparr>,
               \<lparr>user_id = carol, email = ''carol@example.com'', name = ''Carol'', isVerified = False\<rparr>],
      tasks = [task1, task2],
      notifications =
        [\<lparr>notification_id = ''65b000000000000000000001'', userId = alice, ntype = task_assigned,
          message = ''You have been assigned a new task: Book venue'',
          taskId = ''65a000000000000000000002'', isRead = False, notifiedAt = 200\<rparr>,
         \<lparr>notification_id = ''65b000000000000000000002'', userId = bob, ntype = task_assigned,
          message = ''You have been assigned a new task: Old task'',
          taskId = ''65a000000000000000000000'', isRead = False, notifiedAt = 50\<rparr>,
         \<lparr>notification_id = ''65b000000000000000000003'', userId = alice, ntype = task_assigned,
          message = ''You have been assigned a new task: Older task'',
          taskId = ''65a000000000000000000000'', isRead = True, notifiedAt = 40\<rparr>]\<rparr>"

definition exampleDriver :: Driver where
  "exampleDriver = \<lparr>now = 2000, newTaskId = ''65a000000000000000000003'',
                    newNotificationId = ''65b000000000000000000004''\<rparr>"

definition emptyPatch :: UpdateTaskDto where
  "emptyPatch = \<lparr>u_title = None, u_description = None, u_dueDate = None, u_priority = None,
                  u_status = None, u_assignedToId = None\<rparr>"

definition exampleCreate :: CreateTaskDto where
  "exampleCreate = \<lparr>c_title = ''Plan launch'', c_description = ''Dates and owners'',
                     c_dueDate = 5000, c_priority = None, c_status = None,
                     c_assignedToId = None\<rparr>"


section \<open>Properties\<close>

lemmas example_defs = exampleStore_def exampleDriver_def task1_def task2_def alice_def bob_def
  carol_def emptyPatch_def exampleCreate_def
  castObjectId_def lowerHex_def

subsection \<open>Marking notifications read\<close>

lemma getUnreadCount_after_markAllAsRead:
  "getUnreadCount (snd (markAllAsRead ns uid)) uid = 0"
  by (simp add: getUnreadCount_def markAllAsRead_def filter_empty_conv)

lemma markAllAsRead_again:
  "markAllAsRead (snd (markAllAsRead ns uid)) uid = (0, snd (markAllAsRead ns uid))"
proof -
  have "fst (markAllAsRead (snd (markAllAsRead ns uid)) uid) = 0"
    using getUnreadCount_after_markAllAsRead [of ns uid]
    by (simp add: getUnreadCount_def markAllAsRead_def)
  moreover have "snd (markAllAsRead (snd (markAllAsRead ns uid)) uid) = snd (markAllAsRead ns uid)"
    by (simp add: markAllAsRead_def)
  ultimately show ?thesis
    by (simp add: prod_eq_iff)
qed

lemma markAllAsRead_pointwise:
  "list_all2 (\<lambda>n n'. n' = n\<lparr>isRead := isRead n \<or> userId n = uid\<rparr>)
     ns (snd (markAllAsRead ns uid))"
  by (induction ns) (auto simp: markAllAsRead_def)

lemma markAllAsRead_others:
  "filter (\<lambda>n. userId n \<noteq> uid) (snd (markAllAsRead ns uid)) = filter (\<lambda>n. userId n \<noteq> uid) ns"
  by (induction ns) (simp_all add: markAllAsRead_def)

text \<open>
  C10. \<^verbatim>\<open>markAllAsRead(userId)\<close> returns the number of the user's unread notifications;
  afterwards every notification carries the read flag it had or is the user's and read,
  with every other field as before; the notifications of the other users are the same
  documents; the user's unread count is 0; and a second call returns 0 and leaves the
  collection as the first call left it.
\<close>

theorem markAllAsRead_idempotent_complete:
  "fst (markAllAsRead ns uid) = getUnreadCount ns uid \<and>
   list_all2 (\<lambda>n n'. n' = n\<lparr>isRead := isRead n \<or> userId n = uid\<rparr>)
     ns (snd (markAllAsRead ns uid)) \<and>
   filter (\<lambda>n. userId n \<noteq> uid) (snd (markAllAsRead ns uid)) = filter (\<lambda>n. userId n \<noteq> uid) ns \<and>
   getUnreadCount (snd (markAllAsRead ns uid)) uid = 0 \<and>
   markAllAsRead (snd (markAllAsRead ns uid)) uid = (0, snd (markAllAsRead ns uid))"
proof -
  have "fst (markAllAsRead ns uid) = getUnreadCount ns uid"
    by (simp add: markAllAsRead_def getUnreadCount_def)
  then show ?thesis
    using markAllAsRead_pointwise [of uid ns] markAllAsRead_others [of uid ns]
      getUnreadCount_after_markAllAsRead [of ns uid] markAllAsRead_again [of ns uid]
    by blast
qed

theorem markAllAsRead_idempotent_complete_witness:
  "fst (markAllAsRead (notifications exampleStore) alice) = 1 \<and>
   getUnreadCount (notifications exampleStore) alice = 1 \<and>
   map isRead (snd (markAllAsRead (notifications exampleStore) alice)) = [True, False, True] \<and>
   getUnreadCount (snd (markAllAsRead (notifications exampleStore) alice)) alice = 0 \<and>
   fst (markAllAsRead (snd (markAllAsRead (notifications exampleStore) alice)) alice) = 0"
  using markAllAsRead_idempotent_complete [of "notifications exampleStore" alice]
  by (simp add: markAllAsRead_def getUnreadCount_def example_defs)

lemma controller_markAsRead_any_caller:
  "controller_markAsRead s (req\<lparr>req_userId := u\<rparr>) = controller_markAsRead s req"
  by (simp add: controller_markAsRead_def)

lemma controller_markAsRead_malformed_id:
  "\<not> isObjectIdString (req_params_id req) \<Longrightarrow>
     controller_markAsRead s req = ((400, ''Invalid ID format''), s)"
  by (simp add: controller_markAsRead_def service_markAsRead_def markAsRead_def)

text \<open>
  C9. The single-notification read path takes no account of the caller: bob's request
  to mark alice's unread notification read answers 200 and sets the read flag of
  alice's notification.
\<close>

theorem markAsRead_by_other_user_sets_flag:
  "map userId (notifications exampleStore) = [alice, bob, alice] \<and>
   map isRead (notifications exampleStore) = [False, False, True] \<and>
   alice \<noteq> bob \<and>
   controller_markAsRead exampleStore
       \<lparr>req_userId = bob, req_params_id = ''65b000000000000000000001''\<rparr> =
     ((200, ''Notification marked as read''),
      exampleStore\<lparr>notifications :=
        (notifications exampleStore)[0 := (notifications exampleStore ! 0)\<lparr>isRead := True\<rparr>]\<rparr>)"
  by (simp add: controller_markAsRead_def service_markAsRead_def markAsRead_def
      isObjectIdString_def isHexDigit_def castObjectId_def lowerHex_def example_defs)

subsection \<open>Updating and deleting tasks\<close>

lemma updateFirst_found:
  "find (\<lambda>t. task_id t = i) ts = Some t \<Longrightarrow>
     fst (updateFirst nw ts i dto) = Some (applyUpdate nw dto t)"
  by (induction ts) (auto split: if_splits)

lemma updateById_found:
  "findById ts i = Some t \<Longrightarrow>
     updateById nw ts i dto = Inr (None, ts') \<Longrightarrow> False"
  using updateFirst_found [of "castObjectId i" ts t nw dto]
  by (auto simp: findById_def updateById_def split: list.splits)

lemma updateFirst_creators:
  "map (\<lambda>t. (task_id t, creatorId t)) (snd (updateFirst nw ts i dto)) =
   map (\<lambda>t. (task_id t, creatorId t)) ts"
  by (induction ts) (simp_all add: applyUpdate_def)

lemma updateById_creators:
  "updateById nw ts i dto = Inr (found, ts') \<Longrightarrow>
     map (\<lambda>t. (task_id t, creatorId t)) ts' = map (\<lambda>t. (task_id t, creatorId t)) ts"
  using updateFirst_creators [of nw ts "castObjectId i" dto]
  by (auto simp: updateById_def split: list.splits)

lemma updateTask_tasks:
  "tasks (snd (updateTask drv s tid dto uid)) = tasks s \<or>
   (\<exists>found. updateById (now drv) (tasks s) tid dto =
      Inr (found, tasks (snd (updateTask drv s tid dto uid))))"
  by (auto simp: updateTask_def Let_def split: option.splits nullable.splits sum.splits)

lemma findById_creator_map:
  assumes "map (\<lambda>t. (task_id t, creatorId t)) ts' = map (\<lambda>t. (task_id t, creatorId t)) ts"
  shows "map_option creatorId (findById ts' i) = map_option creatorId (findById ts i)"
proof -
  from assms have "length ts' = length ts"
    by (rule map_eq_imp_length_eq)
  then show ?thesis
    using assms
  proof (induction ts' ts rule: list_induct2)
    case Nil
    show ?case by simp
  next
    case (Cons x xs y ys)
    from Cons.prems have hd: "task_id x = task_id y" "creatorId x = creatorId y"
      and tl: "map (\<lambda>t. (task_id t, creatorId t)) xs = map (\<lambda>t. (task_id t, creatorId t)) ys"
      by simp_all
    from Cons.IH [OF tl] hd show ?case
      by (simp add: findById_def)
  qed
qed

text \<open>
  C1. A user who is not the creator of a stored task cannot update or delete it: both
  calls throw the 403 error (Forbidden), the store after the call is the store before
  it, and the task is still found under its identifier.
\<close>

theorem non_creator_forbidden:
  assumes "findById (tasks s) tid = Some t" and "uid \<noteq> creatorId t"
  shows "updateTask drv s tid dto uid =
           (Inl (AppError ''You are not authorized to update this task'' 403), s) \<and>
         deleteTask s tid uid =
           (Inl (AppError ''You are not authorized to delete this task'' 403), s) \<and>
         findById (tasks (snd (updateTask drv s tid dto uid))) tid = Some t \<and>
         findById (tasks (snd (deleteTask s tid uid))) tid = Some t"
proof -
  from assms have upd: "updateTask drv s tid dto uid =
      (Inl (AppError ''You are not authorized to update this task'' 403), s)"
    by (simp add: updateTask_def)
  from assms have del: "deleteTask s tid uid =
      (Inl (AppError ''You are not authorized to delete this task'' 403), s)"
    by (simp add: deleteTask_def)
  show ?thesis unfolding upd del using assms(1) by simp
qed

theorem non_creator_forbidden_witness:
  "findById (tasks exampleStore) (task_id task1) = Some task1 \<and> bob \<noteq> creatorId task1 \<and>
   updateTask exampleDriver exampleStore (task_id task1) (emptyPatch\<lparr>u_title := Some ''Mine now''\<rparr>) bob =
     (Inl (AppError ''You are not authorized to update this task'' 403), exampleStore) \<and>
   deleteTask exampleStore (task_id task1) bob =
     (Inl (AppError ''You are not authorized to delete this task'' 403), exampleStore)"
proof -
  have found: "findById (tasks exampleStore) (task_id task1) = Some task1"
    by (simp add: findById_def example_defs)
  have other: "bob \<noteq> creatorId task1"
    by (simp add: example_defs)
  show ?thesis
    using found other
      non_creator_forbidden [OF found other, of exampleDriver "emptyPatch\<lparr>u_title := Some ''Mine now''\<rparr>"]
    by simp
qed

text \<open>
  C5. The creator reference is written when the task is created and no update changes
  it: whatever the patch and whoever calls, the documents after \<^verbatim>\<open>updateTask\<close> have
  the identifiers and creators they had before, so a lookup by identifier finds the
  same creator; \<^verbatim>\<open>createTask\<close> keeps the stored documents and gives the new one the
  caller as creator.
\<close>

theorem creator_immutable:
  "map (\<lambda>t. (task_id t, creatorId t)) (tasks (snd (updateTask drv s tid dto uid))) =
     map (\<lambda>t. (task_id t, creatorId t)) (tasks s) \<and>
   map_option creatorId (findById (tasks (snd (updateTask drv s tid dto uid))) i) =
     map_option creatorId (findById (tasks s) i) \<and>
   map creatorId (tasks (snd (createTask drv s cdto creator))) \<in>
     {map creatorId (tasks s), map creatorId (tasks s) @ [creator]}"
proof -
  have pairs: "map (\<lambda>t. (task_id t, creatorId t)) (tasks (snd (updateTask drv s tid dto uid))) =
      map (\<lambda>t. (task_id t, creatorId t)) (tasks s)"
    using updateTask_tasks [of drv s tid dto uid] updateById_creators [of "now drv" "tasks s" tid dto]
    by auto
  have created: "map creatorId (tasks (snd (createTask drv s cdto creator))) \<in>
      {map creatorId (tasks s), map creatorId (tasks s) @ [creator]}"
    by (auto simp: createTask_def task_create_def Let_def split: option.splits list.splits)
  from pairs created findById_creator_map [OF pairs] show ?thesis by blast
qed

theorem creator_immutable_witness:
  "map creatorId (tasks exampleStore) = [alice, bob] \<and>
   map creatorId (tasks (snd (updateTask exampleDriver exampleStore (task_id task1)
       (emptyPatch\<lparr>u_title := Some ''Rewrite report'', u_assignedToId := Some (Value bob)\<rparr>) alice))) =
     [alice, bob] \<and>
   map title (tasks (snd (updateTask exampleDriver exampleStore (task_id task1)
       (emptyPatch\<lparr>u_title := Some ''Rewrite report'', u_assignedToId := Some (Value bob)\<rparr>) alice))) =
     [''Rewrite report'', ''Book venue'']"
  using creator_immutable [of exampleDriver exampleStore "task_id task1"
      "emptyPatch\<lparr>u_title := Some ''Rewrite report'', u_assignedToId := Some (Value bob)\<rparr>" alice]
  by (simp add: updateTask_def Let_def findById_def user_findById_def updateById_def
      requiredFailures_def applyUpdate_def notification_create_def truthy_def
      castObjectId_def lowerHex_def example_defs)

lemma assigneeChanged_flag:
  assumes "updateTask drv s tid dto uid = (Inr r, s')" and "findById (tasks s) tid = Some t"
  shows "assigneeChanged r =
           (case u_assignedToId dto of None \<Rightarrow> False | Some Null \<Rightarrow> True
            | Some (Value a) \<Rightarrow> assignedToId t \<noteq> Some a)"
  using assms
  by (cases "assignedToId t")
     (auto simp: updateTask_def Let_def
        split: option.splits nullable.splits if_splits sum.splits prod.splits)

text \<open>
  C2. The flag compares the patch's value with the previous identifier by strict
  inequality, and the previous identifier of a task without assignee is
  \<^verbatim>\<open>undefined\<close>, not \<^verbatim>\<open>null\<close>: alice's patch \<^verbatim>\<open>{ assignedToId: null }\<close> on her
  unassigned task comes back with \<^verbatim>\<open>assigneeChanged\<close> true, although the task had no
  assignee before and has none after.
\<close>

theorem unassign_unassigned_reports_change:
  "findById (tasks exampleStore) (task_id task1) = Some task1 \<and>
   creatorId task1 = alice \<and> assignedToId task1 = None \<and>
   fst (updateTask exampleDriver exampleStore (task_id task1)
          (emptyPatch\<lparr>u_assignedToId := Some Null\<rparr>) alice) =
     Inr \<lparr>task = task1\<lparr>updatedAt := 2000\<rparr>, previousAssigneeId = None, assigneeChanged = True\<rparr>"
  by (simp add: updateTask_def Let_def findById_def updateById_def requiredFailures_def
      applyUpdate_def castObjectId_def lowerHex_def example_defs)

subsection \<open>Assignment: notifications and validation\<close>

lemma updateTask_failure_notifications:
  "updateTask drv s tid dto uid = (Inl e, s') \<Longrightarrow> notifications s' = notifications s"
  by (auto simp: updateTask_def Let_def
      split: option.splits nullable.splits if_splits sum.splits prod.splits)

lemma updateTask_success_notifications:
  assumes "updateTask drv s tid dto uid = (Inr r, s')"
  shows "notifications s' =
           (case u_assignedToId dto of
              Some (Value a) \<Rightarrow>
                if assigneeChanged r \<and> truthy a \<and> a \<noteq> uid
                then notifications s @
                       [\<lparr>notification_id = newNotificationId drv, userId = castObjectId a,
                         ntype = task_assigned,
                         message = ''You have been assigned a task: '' @ title (task r),
                         taskId = castObjectId (task_id (task r)), isRead = False,
                         notifiedAt = now drv\<rparr>]
                else notifications s
            | _ \<Rightarrow> notifications s)"
  using assms
  by (auto simp: updateTask_def Let_def notification_create_def
        split: option.splits nullable.splits if_splits sum.splits prod.splits)

lemma isObjectIdString_truthy: "isObjectIdString a \<Longrightarrow> truthy a"
  by (auto simp: isObjectIdString_def truthy_def)

text \<open>What the code does for a patch that the update schema accepts: it creates the
  notification exactly when the flag is true and the patch holds an identifier whose
  string is not the string of the caller's identifier.\<close>

lemma notification_compares_identifier_strings:
  assumes "updateTaskSchema_assignedToId dto"
    and "updateTask drv s tid dto uid = (Inr r, s')"
  shows "(notifications s' \<noteq> notifications s) =
           (assigneeChanged r \<and> (\<exists>a. u_assignedToId dto = Some (Value a) \<and> a \<noteq> uid))"
proof (cases "u_assignedToId dto")
  case None
  with updateTask_success_notifications [OF assms(2)] show ?thesis by simp
next
  case (Some v)
  show ?thesis
  proof (cases v)
    case Null
    with Some updateTask_success_notifications [OF assms(2)] show ?thesis by simp
  next
    case (Value a)
    with Some assms(1) have "truthy a"
      by (simp add: updateTaskSchema_assignedToId_def isObjectIdString_truthy)
    with Value Some updateTask_success_notifications [OF assms(2)] show ?thesis by simp
  qed
qed

text \<open>
  C3. The test that keeps the updating user from being notified compares the patch's
  identifier with the caller's as strings, while the update schema takes the digits of
  an identifier in either case and the models find a user under any spelling. Bob's
  patch of his own task that names bob in upper case passes the schema, resolves to
  bob, makes bob the assignee, and creates a \<^verbatim>\<open>task_assigned\<close> notification for bob:
  the flag is true and the new assignee is not null, but the new assignee is the
  updating user.
\<close>

theorem self_assignment_in_upper_case_notifies:
  "updateTaskSchema_assignedToId (emptyPatch\<lparr>u_assignedToId := Some (Value ''507F1F77BCF86CD799439012'')\<rparr>) \<and>
   map_option user_id (user_findById (users exampleStore) ''507F1F77BCF86CD799439012'') = Some bob \<and>
   creatorId task2 = bob \<and>
   updateTask exampleDriver exampleStore (task_id task2)
       (emptyPatch\<lparr>u_assignedToId := Some (Value ''507F1F77BCF86CD799439012'')\<rparr>) bob =
     (Inr \<lparr>task = task2\<lparr>assignedToId := Some bob, updatedAt := 2000\<rparr>,
           previousAssigneeId = Some alice, assigneeChanged = True\<rparr>,
      exampleStore
        \<lparr>tasks := [task1, task2\<lparr>assignedToId := Some bob, updatedAt := 2000\<rparr>],
         notifications := notifications exampleStore @
           [\<lparr>notification_id = ''65b000000000000000000004'', userId = bob,
             ntype = task_assigned, message = ''You have been assigned a task: Book venue'',
             taskId = ''65a000000000000000000002'', isRead = False, notifiedAt = 2000\<rparr>]\<rparr>)"
  by (simp add: updateTask_def Let_def findById_def user_findById_def updateById_def
      requiredFailures_def applyUpdate_def notification_create_def truthy_def
      updateTaskSchema_assignedToId_def isObjectIdString_def isHexDigit_def example_defs)

text \<open>
  C4, as the code has it. An \<^verbatim>\<open>updateTask\<close> call reaches the check of the assignee
  only after the task was found and the caller was its creator: bob's patch of alice's
  task throws the 403 error, whether the patch assigns the task to the unverified carol
  or to an identifier that no user has.
\<close>

theorem invalid_assignee_by_non_creator_is_forbidden:
  "map_option isVerified (user_findById (users exampleStore) carol) = Some False \<and>
   user_findById (users exampleStore) ''507f1f77bcf86cd7994390ff'' = None \<and>
   findById (tasks exampleStore) (task_id task1) = Some task1 \<and>
   creatorId task1 = alice \<and>
   updateTask exampleDriver exampleStore (task_id task1)
       (emptyPatch\<lparr>u_assignedToId := Some (Value carol)\<rparr>) bob =
     (Inl (AppError ''You are not authorized to update this task'' 403), exampleStore) \<and>
   updateTask exampleDriver exampleStore (task_id task1)
       (emptyPatch\<lparr>u_assignedToId := Some (Value ''507f1f77bcf86cd7994390ff'')\<rparr>) bob =
     (Inl (AppError ''You are not authorized to update this task'' 403), exampleStore)"
  by (simp add: updateTask_def findById_def user_findById_def example_defs)

text \<open>
  C4, amended. For an assignee identifier of the form the schemas accept, in any
  spelling: when no user has the identifier, \<^verbatim>\<open>createTask\<close> throws the 404 error
  \<^verbatim>\<open>Assigned user not found\<close>, and so does \<^verbatim>\<open>updateTask\<close> on a stored task called by
  its creator; when the user is not verified, both throw the 400 error
  \<^verbatim>\<open>Cannot assign task to unverified user\<close>. The store after each of these calls is the
  store before it.
\<close>

theorem assignee_must_exist_and_be_verified:
  assumes "isObjectIdString a"
  shows "(user_findById (users s) a = None \<longrightarrow>
            createTask drv s (cdto\<lparr>c_assignedToId := Some a\<rparr>) creator =
              (Inl (AppError ''Assigned user not found'' 404), s) \<and>
            (findById (tasks s) tid = Some t \<and> creatorId t = uid \<longrightarrow>
               updateTask drv s tid (dto\<lparr>u_assignedToId := Some (Value a)\<rparr>) uid =
                 (Inl (AppError ''Assigned user not found'' 404), s))) \<and>
         (\<forall>usr. user_findById (users s) a = Some usr \<and> \<not> isVerified usr \<longrightarrow>
            createTask drv s (cdto\<lparr>c_assignedToId := Some a\<rparr>) creator =
              (Inl (AppError ''Cannot assign task to unverified user'' 400), s) \<and>
            (findById (tasks s) tid = Some t \<and> creatorId t = uid \<longrightarrow>
               updateTask drv s tid (dto\<lparr>u_assignedToId := Some (Value a)\<rparr>) uid =
                 (Inl (AppError ''Cannot assign task to unverified user'' 400), s)))"
proof -
  from assms have nonempty: "truthy a"
    by (rule isObjectIdString_truthy)
  have missing_create: "createTask drv s (cdto\<lparr>c_assignedToId := Some a\<rparr>) creator =
      (Inl (AppError ''Assigned user not found'' 404), s)"
    if "user_findById (users s) a = None"
    using that nonempty by (simp add: createTask_def)
  have missing_update: "updateTask drv s tid (dto\<lparr>u_assignedToId := Some (Value a)\<rparr>) uid =
      (Inl (AppError ''Assigned user not found'' 404), s)"
    if "user_findById (users s) a = None" "findById (tasks s) tid = Some t" "creatorId t = uid"
    using that by (simp add: updateTask_def)
  have unverified_create: "createTask drv s (cdto\<lparr>c_assignedToId := Some a\<rparr>) creator =
      (Inl (AppError ''Cannot assign task to unverified user'' 400), s)"
    if "user_findById (users s) a = Some usr" "\<not> isVerified usr" for usr
    using that nonempty by (simp add: createTask_def)
  have unverified_update: "updateTask drv s tid (dto\<lparr>u_assignedToId := Some (Value a)\<rparr>) uid =
      (Inl (AppError ''Cannot assign task to unverified user'' 400), s)"
    if "user_findById (users s) a = Some usr" "\<not> isVerified usr"
      "findById (tasks s) tid = Some t" "creatorId t = uid" for usr
    using that by (simp add: updateTask_def)
  show ?thesis
    using missing_create missing_update unverified_create unverified_update
    by blast
qed

theorem assignee_must_exist_and_be_verified_witness:
  "isObjectIdString ''507F1F77BCF86CD799439013'' \<and> isObjectIdString ''507f1f77bcf86cd7994390ff'' \<and>
   user_findById (users exampleStore) ''507F1F77BCF86CD799439013'' =
     Some \<lparr>user_id = carol, email = ''carol@example.com'', name = ''Carol'', isVerified = False\<rparr> \<and>
   createTask exampleDriver exampleStore
       (exampleCreate\<lparr>c_assignedToId := Some ''507F1F77BCF86CD799439013''\<rparr>) alice =
     (Inl (AppError ''Cannot assign task to unverified user'' 400), exampleStore) \<and>
   updateTask exampleDriver exampleStore (task_id task1)
       (emptyPatch\<lparr>u_assignedToId := Some (Value ''507F1F77BCF86CD799439013'')\<rparr>) alice =
     (Inl (AppError ''Cannot assign task to unverified user'' 400), exampleStore) \<and>
   createTask exampleDriver exampleStore
       (exampleCreate\<lparr>c_assignedToId := Some ''507f1f77bcf86cd7994390ff''\<rparr>) alice =
     (Inl (AppError ''Assigned user not found'' 404), exampleStore) \<and>
   updateTask exampleDriver exampleStore (task_id task1)
       (emptyPatch\<lparr>u_assignedToId := Some (Value ''507f1f77bcf86cd7994390ff'')\<rparr>) alice =
     (Inl (AppError ''Assigned user not found'' 404), exampleStore)"
proof -
  have id1: "isObjectIdString ''507F1F77BCF86CD799439013''"
    by (simp add: isObjectIdString_def isHexDigit_def)
  have id2: "isObjectIdString ''507f1f77bcf86cd7994390ff''"
    by (simp add: isObjectIdString_def isHexDigit_def)
  have found: "findById (tasks exampleStore) (task_id task1) = Some task1 \<and> creatorId task1 = alice"
    by (simp add: findById_def example_defs)
  have unverified: "user_findById (users exampleStore) ''507F1F77BCF86CD799439013'' =
      Some \<lparr>user_id = carol, email = ''carol@example.com'', name = ''Carol'', isVerified = False\<rparr>"
    by (simp add: user_findById_def example_defs)
  have missing: "user_findById (users exampleStore) ''507f1f77bcf86cd7994390ff'' = None"
    by (simp add: user_findById_def example_defs)
  show ?thesis
    using id1 id2 found unverified missing
      assignee_must_exist_and_be_verified [OF id1, where s = exampleStore and drv = exampleDriver
        and cdto = exampleCreate and creator = alice and tid = "task_id task1" and t = task1
        and uid = alice and dto = emptyPatch]
      assignee_must_exist_and_be_verified [OF id2, where s = exampleStore and drv = exampleDriver
        and cdto = exampleCreate and creator = alice and tid = "task_id task1" and t = task1
        and uid = alice and dto = emptyPatch]
    by simp
qed

subsection \<open>Listing: pagination, filters, the overdue query\<close>

lemma runPage_valid:
  assumes "1 \<le> o_page opts" and "1 \<le> o_limit opts"
  shows "runPage ts q opts =
     Inr \<lparr>data = take (nat (o_limit opts)) (drop (nat ((o_page opts - 1) * o_limit opts))
                   (sortTasks (o_sortBy opts) (o_sortOrder opts) (filter (matches q) ts))),
          pagination =
            \<lparr>total = int (length (filter (matches q) ts)), page = o_page opts,
             limit = o_limit opts,
             totalPages = Num \<lceil>real_of_int (int (length (filter (matches q) ts))) /
                                real_of_int (o_limit opts)\<rceil>,
             hasNextPage = (o_page opts <
                              \<lceil>real_of_int (int (length (filter (matches q) ts))) /
                                real_of_int (o_limit opts)\<rceil>),
             hasPrevPage = (1 < o_page opts)\<rparr>\<rparr>"
proof -
  from assms have skip: "\<not> (o_page opts - 1) * o_limit opts < 0"
    by (simp add: not_less)
  from assms(2) have lim: "o_limit opts \<noteq> 0" "\<bar>o_limit opts\<bar> = o_limit opts"
    by simp_all
  show ?thesis
    by (simp add: runPage_def skip_limit_def ceil_div_def Let_def skip lim)
qed

lemma field_Inr: "field f x = Inr y \<longleftrightarrow> (\<exists>g v. f = Inr g \<and> x = Inr v \<and> y = g v)"
  by (cases f; cases x) (auto simp: field_def)

lemma taskQuerySchema_Inr:
  "taskQuerySchema parseInt raw = Inr query \<longleftrightarrow>
     schema_page parseInt (raw ''page'') = Inr (q_page query) \<and>
     schema_limit parseInt (raw ''limit'') = Inr (q_limit query) \<and>
     schema_sortBy (raw ''sortBy'') = Inr (q_sortBy query) \<and>
     schema_sortOrder (raw ''sortOrder'') = Inr (q_sortOrder query) \<and>
     schema_status (raw ''status'') = Inr (q_status query) \<and>
     schema_priority (raw ''priority'') = Inr (q_priority query)"
proof -
  have "taskQuerySchema parseInt raw = Inr query \<longleftrightarrow>
      field (field (field (field (field (field
               (Inr (\<lambda>sb so st pr p l.
                      \<lparr>q_page = p, q_limit = l, q_sortBy = sb, q_sortOrder = so,
                       q_status = st, q_priority = pr\<rparr>))
               (schema_sortBy (raw ''sortBy'')))
               (schema_sortOrder (raw ''sortOrder'')))
               (schema_status (raw ''status'')))
               (schema_priority (raw ''priority'')))
               (schema_page parseInt (raw ''page'')))
               (schema_limit parseInt (raw ''limit'')) = Inr query"
    by (simp add: taskQuerySchema_def split: sum.splits)
  also have "\<dots> \<longleftrightarrow>
     schema_page parseInt (raw ''page'') = Inr (q_page query) \<and>
     schema_limit parseInt (raw ''limit'') = Inr (q_limit query) \<and>
     schema_sortBy (raw ''sortBy'') = Inr (q_sortBy query) \<and>
     schema_sortOrder (raw ''sortOrder'') = Inr (q_sortOrder query) \<and>
     schema_status (raw ''status'') = Inr (q_status query) \<and>
     schema_priority (raw ''priority'') = Inr (q_priority query)"
    by (cases query) (auto simp: field_Inr)
  finally show ?thesis .
qed

lemma taskQuerySchema_cases:
  "(\<exists>issues. taskQuerySchema parseInt raw = Inl (ZodError issues)) \<or>
   (\<exists>query. taskQuerySchema parseInt raw = Inr query)"
  by (simp add: taskQuerySchema_def split: sum.splits)

lemma schema_page_Inr: "schema_page parseInt v = Inr n \<Longrightarrow> 1 \<le> n"
  by (auto simp: schema_page_def split: option.splits if_splits)

lemma schema_limit_Inr: "schema_limit parseInt v = Inr n \<Longrightarrow> 1 \<le> n \<and> n \<le> 100"
  by (auto simp: schema_limit_def split: option.splits if_splits)

lemma taskQuerySchema_range:
  "taskQuerySchema parseInt raw = Inr query \<Longrightarrow>
     1 \<le> q_page query \<and> 1 \<le> q_limit query \<and> q_limit query \<le> 100"
  using schema_page_Inr [of parseInt "raw ''page''" "q_page query"]
    schema_limit_Inr [of parseInt "raw ''limit''" "q_limit query"]
  by (simp add: taskQuerySchema_Inr)

lemma taskQuerySchema_rejects_page:
  assumes "parseInt v = Some n" and "n < 1"
  shows "\<exists>issues. taskQuerySchema parseInt (raw(''page'' \<mapsto> v)) = Inl (ZodError issues)"
proof -
  from assms have "schema_page parseInt ((raw(''page'' \<mapsto> v)) ''page'') = Inl [(''page'', too_small)]"
    by (simp add: schema_page_def)
  then have "\<not> (\<exists>query. taskQuerySchema parseInt (raw(''page'' \<mapsto> v)) = Inr query)"
    by (simp add: taskQuerySchema_Inr)
  with taskQuerySchema_cases [of parseInt "raw(''page'' \<mapsto> v)"] show ?thesis
    by blast
qed

lemma taskQuerySchema_rejects_limit:
  assumes "parseInt v = Some n" and "n < 1 \<or> 100 < n"
  shows "\<exists>issues. taskQuerySchema parseInt (raw(''limit'' \<mapsto> v)) = Inl (ZodError issues)"
proof -
  from assms have "\<exists>e. schema_limit parseInt ((raw(''limit'' \<mapsto> v)) ''limit'') = Inl e"
    by (auto simp: schema_limit_def)
  then have "\<not> (\<exists>query. taskQuerySchema parseInt (raw(''limit'' \<mapsto> v)) = Inr query)"
    by (auto simp: taskQuerySchema_Inr)
  with taskQuerySchema_cases [of parseInt "raw(''limit'' \<mapsto> v)"] show ?thesis
    by blast
qed

text \<open>
  C6. For a page number of at least 1 and a page size of at least 1 (the schema allows
  sizes up to 100), \<^verbatim>\<open>findWithPagination\<close> returns a result whose total \<open>N\<close> is the
  number of stored tasks that match the filter object, whose \<^verbatim>\<open>totalPages\<close> is the
  ceiling of \<open>N / L\<close>, whose \<^verbatim>\<open>hasNextPage\<close> says that the page is below that ceiling and
  whose \<^verbatim>\<open>hasPrevPage\<close> says that the page is above 1. The query schema refuses a page
  parameter that parses to less than 1 and a limit parameter that parses to less than 1
  or to more than 100, and every query it accepts has a page of at least 1 and a limit
  from 1 to 100.
\<close>

theorem pagination_fields_and_query_bounds:
  assumes "1 \<le> pg" and "1 \<le> lmt"
  shows "(\<exists>r. findWithPagination nw ts
               \<lparr>o_page = pg, o_limit = lmt, o_sortBy = sb, o_sortOrder = so, o_filters = fs\<rparr> = Inr r \<and>
             total (pagination r) = int (length (filter (matches (buildQuery nw fs)) ts)) \<and>
             totalPages (pagination r) =
               Num \<lceil>real (length (filter (matches (buildQuery nw fs)) ts)) / real_of_int lmt\<rceil> \<and>
             hasNextPage (pagination r) =
               (pg < \<lceil>real (length (filter (matches (buildQuery nw fs)) ts)) / real_of_int lmt\<rceil>) \<and>
             hasPrevPage (pagination r) = (pg > 1)) \<and>
         (\<forall>raw v n. parseInt v = Some n \<and> n < 1 \<longrightarrow>
            (\<exists>issues. taskQuerySchema parseInt (raw(''page'' \<mapsto> v)) = Inl (ZodError issues))) \<and>
         (\<forall>raw v n. parseInt v = Some n \<and> (n < 1 \<or> 100 < n) \<longrightarrow>
            (\<exists>issues. taskQuerySchema parseInt (raw(''limit'' \<mapsto> v)) = Inl (ZodError issues))) \<and>
         (\<forall>raw query. taskQuerySchema parseInt raw = Inr query \<longrightarrow>
            1 \<le> q_page query \<and> 1 \<le> q_limit query \<and> q_limit query \<le> 100)"
proof -
  have page: "\<exists>r. findWithPagination nw ts
               \<lparr>o_page = pg, o_limit = lmt, o_sortBy = sb, o_sortOrder = so, o_filters = fs\<rparr> = Inr r \<and>
             total (pagination r) = int (length (filter (matches (buildQuery nw fs)) ts)) \<and>
             totalPages (pagination r) =
               Num \<lceil>real (length (filter (matches (buildQuery nw fs)) ts)) / real_of_int lmt\<rceil> \<and>
             hasNextPage (pagination r) =
               (pg < \<lceil>real (length (filter (matches (buildQuery nw fs)) ts)) / real_of_int lmt\<rceil>) \<and>
             hasPrevPage (pagination r) = (pg > 1)"
    using assms
    by (simp add: findWithPagination_def runPage_valid)
  show ?thesis
    using page taskQuerySchema_rejects_page [of parseInt] taskQuerySchema_rejects_limit [of parseInt]
      taskQuerySchema_range [of parseInt]
    by blast
qed

theorem pagination_fields_and_query_bounds_witness:
  "(1::int) \<le> 2 \<and> (1::int) \<le> 1 \<and>
   findWithPagination 2000 (tasks exampleStore)
       \<lparr>o_page = 2, o_limit = 1, o_sortBy = by_createdAt, o_sortOrder = desc, o_filters = None\<rparr> =
     Inr \<lparr>data = [task1],
          pagination = \<lparr>total = 2, page = 2, limit = 1, totalPages = Num 2,
                        hasNextPage = False, hasPrevPage = True\<rparr>\<rparr> \<and>
   findWithPagination 2000 (tasks exampleStore)
       \<lparr>o_page = 1, o_limit = 1, o_sortBy = by_createdAt, o_sortOrder = desc, o_filters = None\<rparr> =
     Inr \<lparr>data = [task2],
          pagination = \<lparr>total = 2, page = 1, limit = 1, totalPages = Num 2,
                        hasNextPage = True, hasPrevPage = False\<rparr>\<rparr> \<and>
   taskQuerySchema parseInt10 [''page'' \<mapsto> ''0''] = Inl (ZodError [(''page'', too_small)]) \<and>
   taskQuerySchema parseInt10 [''limit'' \<mapsto> ''0''] = Inl (ZodError [(''limit'', too_small)]) \<and>
   taskQuerySchema parseInt10 [''limit'' \<mapsto> ''101''] = Inl (ZodError [(''limit'', too_big)]) \<and>
   taskQuerySchema parseInt10 [''page'' \<mapsto> ''2'', ''limit'' \<mapsto> ''100''] =
     Inr \<lparr>q_page = 2, q_limit = 100, q_sortBy = by_createdAt, q_sortOrder = desc,
          q_status = None, q_priority = None\<rparr>"
proof -
  have run: "findWithPagination 2000 (tasks exampleStore)
       \<lparr>o_page = pg, o_limit = 1, o_sortBy = by_createdAt, o_sortOrder = desc, o_filters = None\<rparr> =
     Inr \<lparr>data = take 1 (drop (nat (pg - 1)) [task2, task1]),
          pagination = \<lparr>total = 2, page = pg, limit = 1, totalPages = Num 2,
                        hasNextPage = (pg < 2), hasPrevPage = (1 < pg)\<rparr>\<rparr>"
    if "pg = 1 \<or> pg = 2" for pg
    using that
    by (auto simp: findWithPagination_def runPage_def buildQuery_def emptyQuery_def matches_def
        sortTasks_def skip_limit_def ceil_div_def Let_def example_defs)
  have parse: "parseInt10 ''0'' = Some 0" "parseInt10 ''101'' = Some 101"
    "parseInt10 ''2'' = Some 2" "parseInt10 ''100'' = Some 100" "parseInt10 ''1'' = Some 1"
    "parseInt10 ''10'' = Some 10"
    by (simp_all add: parseInt10_def isWhiteSpace_def isDigit_def digitValue_def Let_def)
  have schema: "taskQuerySchema parseInt10 [''page'' \<mapsto> ''0''] = Inl (ZodError [(''page'', too_small)])"
    "taskQuerySchema parseInt10 [''limit'' \<mapsto> ''0''] = Inl (ZodError [(''limit'', too_small)])"
    "taskQuerySchema parseInt10 [''limit'' \<mapsto> ''101''] = Inl (ZodError [(''limit'', too_big)])"
    "taskQuerySchema parseInt10 [''page'' \<mapsto> ''2'', ''limit'' \<mapsto> ''100''] =
       Inr \<lparr>q_page = 2, q_limit = 100, q_sortBy = by_createdAt, q_sortOrder = desc,
            q_status = None, q_priority = None\<rparr>"
    by (simp_all add: taskQuerySchema_def field_def schema_page_def schema_limit_def
        schema_sortBy_def schema_sortOrder_def schema_status_def schema_priority_def parse)
  have one: "(1::int) \<le> 2" "(1::int) \<le> 1"
    by simp_all
  show ?thesis
    using pagination_fields_and_query_bounds [OF one, where parseInt = parseInt10
        and nw = 2000 and ts = "tasks exampleStore" and sb = by_createdAt and so = desc
        and fs = None]
    by (simp add: run schema)
qed

lemma matches_buildQuery:
  "matches (buildQuery nw (Some f)) t =
     ((if f_overdue f = Some True then status t \<noteq> COMPLETED \<and> dueDate t < nw
       else (case f_status f of None \<Rightarrow> True | Some v \<Rightarrow> status t = v)) \<and>
      (case f_priority f of None \<Rightarrow> True | Some v \<Rightarrow> priority t = v) \<and>
      (case f_creatorId f of None \<Rightarrow> True | Some v \<Rightarrow> v = [] \<or> creatorId t = v) \<and>
      (case f_assignedToId f of None \<Rightarrow> True | Some v \<Rightarrow> v = [] \<or> assignedToId t = Some v))"
  by (auto simp: buildQuery_def matches_def emptyQuery_def truthy_def Let_def
      split: option.splits)

lemma matches_overdue_for_user:
  "matches (emptyQuery\<lparr>query_or := Some [CreatorIs uid, AssigneeIs uid],
                       query_dueDate := Some (Lt nw),
                       query_status := Some (Ne COMPLETED)\<rparr>) t =
     (dueDate t < nw \<and> status t \<noteq> COMPLETED \<and> (creatorId t = uid \<or> assignedToId t = Some uid))"
  by (auto simp: matches_def emptyQuery_def)

text \<open>
  C7. The overdue filter of \<^verbatim>\<open>findWithPagination\<close> selects a task exactly when its due
  date is strictly before the current time and its status is not Completed, so a task
  due at the current time is not overdue. For a page and a page size of at least 1,
  \<^verbatim>\<open>findOverdueForUser\<close> counts exactly the overdue tasks of which the user is the
  creator or the assignee, and returns the page cut from those tasks in sorted order.
\<close>

theorem overdue_predicate_and_user_query:
  assumes "1 \<le> pg" and "1 \<le> lmt"
  shows "matches (buildQuery nw (Some (noFilters\<lparr>f_overdue := Some True\<rparr>))) t =
           (dueDate t < nw \<and> status t \<noteq> COMPLETED) \<and>
         \<not> matches (buildQuery nw (Some (noFilters\<lparr>f_overdue := Some True\<rparr>))) (t\<lparr>dueDate := nw\<rparr>) \<and>
         (\<exists>r. findOverdueForUser nw ts uid
                 \<lparr>o_page = pg, o_limit = lmt, o_sortBy = sb, o_sortOrder = so, o_filters = fs\<rparr> =
               Inr r \<and>
              total (pagination r) =
                int (length (filter (\<lambda>t. dueDate t < nw \<and> status t \<noteq> COMPLETED \<and>
                                          (creatorId t = uid \<or> assignedToId t = Some uid)) ts)) \<and>
              data r =
                take (nat lmt) (drop (nat ((pg - 1) * lmt))
                  (sortTasks sb so
                     (filter (\<lambda>t. dueDate t < nw \<and> status t \<noteq> COMPLETED \<and>
                                  (creatorId t = uid \<or> assignedToId t = Some uid)) ts))))"
proof -
  have overdue: "matches (buildQuery nw (Some (noFilters\<lparr>f_overdue := Some True\<rparr>))) t' =
      (dueDate t' < nw \<and> status t' \<noteq> COMPLETED)" for t'
    by (auto simp: matches_buildQuery noFilters_def)
  have same: "matches (emptyQuery\<lparr>query_or := Some [CreatorIs uid, AssigneeIs uid],
                       query_dueDate := Some (Lt nw),
                       query_status := Some (Ne COMPLETED)\<rparr>) =
      (\<lambda>t. dueDate t < nw \<and> status t \<noteq> COMPLETED \<and> (creatorId t = uid \<or> assignedToId t = Some uid))"
    by (rule ext) (rule matches_overdue_for_user)
  from assms have page: "\<exists>r. findOverdueForUser nw ts uid
                 \<lparr>o_page = pg, o_limit = lmt, o_sortBy = sb, o_sortOrder = so, o_filters = fs\<rparr> =
               Inr r \<and>
              total (pagination r) =
                int (length (filter (\<lambda>t. dueDate t < nw \<and> status t \<noteq> COMPLETED \<and>
                                          (creatorId t = uid \<or> assignedToId t = Some uid)) ts)) \<and>
              data r =
                take (nat lmt) (drop (nat ((pg - 1) * lmt))
                  (sortTasks sb so
                     (filter (\<lambda>t. dueDate t < nw \<and> status t \<noteq> COMPLETED \<and>
                                  (creatorId t = uid \<or> assignedToId t = Some uid)) ts)))"
    unfolding findOverdueForUser_def same [symmetric]
    by (simp add: runPage_valid)
  from overdue [of t] overdue [of "t\<lparr>dueDate := nw\<rparr>"] page show ?thesis
    by simp
qed

theorem overdue_predicate_and_user_query_witness:
  "(1::int) \<le> 1 \<and> (1::int) \<le> 10 \<and>
   map dueDate (tasks exampleStore) = [1000, 3000] \<and>
   findOverdueForUser 2000 (tasks exampleStore) alice
       \<lparr>o_page = 1, o_limit = 10, o_sortBy = by_dueDate, o_sortOrder = asc, o_filters = None\<rparr> =
     Inr \<lparr>data = [task1],
          pagination = \<lparr>total = 1, page = 1, limit = 10, totalPages = Num 1,
                        hasNextPage = False, hasPrevPage = False\<rparr>\<rparr> \<and>
   findOverdueForUser 1000 (tasks exampleStore) alice
       \<lparr>o_page = 1, o_limit = 10, o_sortBy = by_dueDate, o_sortOrder = asc, o_filters = None\<rparr> =
     Inr \<lparr>data = [],
          pagination = \<lparr>total = 0, page = 1, limit = 10, totalPages = Num 0,
                        hasNextPage = False, hasPrevPage = False\<rparr>\<rparr> \<and>
   matches (buildQuery 1001 (Some (noFilters\<lparr>f_overdue := Some True\<rparr>))) task1 \<and>
   \<not> matches (buildQuery 1000 (Some (noFilters\<lparr>f_overdue := Some True\<rparr>))) task1"
proof -
  have one: "(1::int) \<le> 1" "(1::int) \<le> 10"
    by simp_all
  have run: "findOverdueForUser nw (tasks exampleStore) alice
       \<lparr>o_page = 1, o_limit = 10, o_sortBy = by_dueDate, o_sortOrder = asc, o_filters = None\<rparr> =
     Inr \<lparr>data = (if 1000 < nw then [task1] else []),
          pagination = \<lparr>total = (if 1000 < nw then 1 else 0), page = 1, limit = 10,
                        totalPages = Num (if 1000 < nw then 1 else 0),
                        hasNextPage = False, hasPrevPage = False\<rparr>\<rparr>"
    if "nw \<le> 3000" for nw
    using that
    by (simp add: findOverdueForUser_def runPage_def matches_def emptyQuery_def sortTasks_def
        skip_limit_def ceil_div_def Let_def ceiling_eq_iff example_defs)
  show ?thesis
    using overdue_predicate_and_user_query [OF one, where nw = 1001 and ts = "tasks exampleStore"
        and uid = alice and sb = by_dueDate and so = asc and fs = None and t = task1]
      overdue_predicate_and_user_query [OF one, where nw = 1000 and ts = "tasks exampleStore"
        and uid = alice and sb = by_dueDate and so = asc and fs = None and t = task1]
    by (simp add: run) (simp add: example_defs)
qed

lemma taskQuerySchema_other_key:
  assumes "k \<notin> {''page'', ''limit'', ''sortBy'', ''sortOrder'', ''status'', ''priority''}"
  shows "taskQuerySchema parseInt (raw(k \<mapsto> v)) = taskQuerySchema parseInt raw"
proof -
  from assms have "''page'' \<noteq> k" "''limit'' \<noteq> k" "''sortBy'' \<noteq> k" "''sortOrder'' \<noteq> k"
    "''status'' \<noteq> k" "''priority'' \<noteq> k"
    by auto
  then have "(raw(k \<mapsto> v)) ''page'' = raw ''page''"
    "(raw(k \<mapsto> v)) ''limit'' = raw ''limit''"
    "(raw(k \<mapsto> v)) ''sortBy'' = raw ''sortBy''"
    "(raw(k \<mapsto> v)) ''sortOrder'' = raw ''sortOrder''"
    "(raw(k \<mapsto> v)) ''status'' = raw ''status''"
    "(raw(k \<mapsto> v)) ''priority'' = raw ''priority''"
    by simp_all
  then show ?thesis
    unfolding taskQuerySchema_def by (simp only:)
qed

lemma find_Some_holds: "find P xs = Some x \<Longrightarrow> P x"
  by (induction xs) (auto split: if_splits)

lemma schema_status_value:
  assumes "schema_status v = Inr st"
  shows "map_option TaskStatus_value st = v"
proof (cases v)
  case None
  with assms show ?thesis by (simp add: schema_status_def)
next
  case v: (Some x)
  show ?thesis
  proof (cases "find (\<lambda>e. TaskStatus_value e = x) [TODO, IN_PROGRESS, REVIEW, COMPLETED]")
    case None
    from assms show ?thesis
      unfolding schema_status_def v option.case None by simp
  next
    case (Some e)
    from assms have "st = Some e"
      unfolding schema_status_def v option.case Some by simp
    with find_Some_holds [OF Some] v show ?thesis by simp
  qed
qed

lemma schema_priority_value:
  assumes "schema_priority v = Inr pr"
  shows "map_option TaskPriority_value pr = v"
proof (cases v)
  case None
  with assms show ?thesis by (simp add: schema_priority_def)
next
  case v: (Some x)
  show ?thesis
  proof (cases "find (\<lambda>e. TaskPriority_value e = x) [LOW, MEDIUM, HIGH, URGENT]")
    case None
    from assms show ?thesis
      unfolding schema_priority_def v option.case None by simp
  next
    case (Some e)
    from assms have "pr = Some e"
      unfolding schema_priority_def v option.case Some by simp
    with find_Some_holds [OF Some] v show ?thesis by simp
  qed
qed

lemma getTasks_valid:
  assumes "1 \<le> q_page query" and "1 \<le> q_limit query"
  shows "getTasks nw ts query =
     Inr \<lparr>data = take (nat (q_limit query)) (drop (nat ((q_page query - 1) * q_limit query))
                   (sortTasks (q_sortBy query) (q_sortOrder query)
                      (filter (\<lambda>t. (case q_status query of None \<Rightarrow> True | Some v \<Rightarrow> status t = v) \<and>
                                   (case q_priority query of None \<Rightarrow> True | Some v \<Rightarrow> priority t = v))
                         ts))),
          pagination =
            \<lparr>total = int (length
                (filter (\<lambda>t. (case q_status query of None \<Rightarrow> True | Some v \<Rightarrow> status t = v) \<and>
                             (case q_priority query of None \<Rightarrow> True | Some v \<Rightarrow> priority t = v))
                   ts)),
             page = q_page query, limit = q_limit query,
             totalPages = Num \<lceil>real (length
                (filter (\<lambda>t. (case q_status query of None \<Rightarrow> True | Some v \<Rightarrow> status t = v) \<and>
                             (case q_priority query of None \<Rightarrow> True | Some v \<Rightarrow> priority t = v))
                   ts)) / real_of_int (q_limit query)\<rceil>,
             hasNextPage = (q_page query < \<lceil>real (length
                (filter (\<lambda>t. (case q_status query of None \<Rightarrow> True | Some v \<Rightarrow> status t = v) \<and>
                             (case q_priority query of None \<Rightarrow> True | Some v \<Rightarrow> priority t = v))
                   ts)) / real_of_int (q_limit query)\<rceil>),
             hasPrevPage = (1 < q_page query)\<rparr>\<rparr>"
proof -
  let ?f = "case q_priority query of
              Some v \<Rightarrow> (case q_status query of Some w \<Rightarrow> noFilters\<lparr>f_status := Some w\<rparr>
                          | None \<Rightarrow> noFilters)\<lparr>f_priority := Some v\<rparr>
            | None \<Rightarrow> (case q_status query of Some w \<Rightarrow> noFilters\<lparr>f_status := Some w\<rparr>
                        | None \<Rightarrow> noFilters)"
  have same: "matches (buildQuery nw (Some ?f)) =
      (\<lambda>t. (case q_status query of None \<Rightarrow> True | Some v \<Rightarrow> status t = v) \<and>
           (case q_priority query of None \<Rightarrow> True | Some v \<Rightarrow> priority t = v))"
    by (rule ext) (simp add: matches_buildQuery noFilters_def split: option.splits)
  have "getTasks nw ts query =
      runPage ts (buildQuery nw (Some ?f))
        \<lparr>o_page = q_page query, o_limit = q_limit query, o_sortBy = q_sortBy query,
         o_sortOrder = q_sortOrder query, o_filters = Some ?f\<rparr>"
    by (simp add: getTasks_def findWithPagination_def Let_def)
  with assms show ?thesis
    unfolding same [symmetric]
    by (simp add: runPage_valid)
qed

text \<open>
  C8, as the code has it. The list query has no creator, assignee or overdue parameter:
  the schema drops the keys and the service builds its filters from the status and the
  priority only. Of the two stored tasks one is alice's, one is assigned to alice and one
  is overdue at time 2000, and a list query that names alice as creator, alice as
  assignee, or asks for the overdue tasks returns both tasks with a total of 2.
\<close>

theorem list_query_drops_creator_assignee_overdue:
  "length (filter (\<lambda>t. creatorId t = alice) (tasks exampleStore)) = 1 \<and>
   length (filter (\<lambda>t. assignedToId t = Some alice) (tasks exampleStore)) = 1 \<and>
   length (filter (\<lambda>t. dueDate t < 2000 \<and> status t \<noteq> COMPLETED) (tasks exampleStore)) = 1 \<and>
   listTasks parseInt10 2000 exampleStore [''creatorId'' \<mapsto> alice] =
     Inr \<lparr>data = [task2, task1],
          pagination = \<lparr>total = 2, page = 1, limit = 10, totalPages = Num 1,
                        hasNextPage = False, hasPrevPage = False\<rparr>\<rparr> \<and>
   listTasks parseInt10 2000 exampleStore [''assignedToId'' \<mapsto> alice] =
     Inr \<lparr>data = [task2, task1],
          pagination = \<lparr>total = 2, page = 1, limit = 10, totalPages = Num 1,
                        hasNextPage = False, hasPrevPage = False\<rparr>\<rparr> \<and>
   listTasks parseInt10 2000 exampleStore [''overdue'' \<mapsto> ''true''] =
     Inr \<lparr>data = [task2, task1],
          pagination = \<lparr>total = 2, page = 1, limit = 10, totalPages = Num 1,
                        hasNextPage = False, hasPrevPage = False\<rparr>\<rparr>"
proof -
  have parse: "parseInt10 ''1'' = Some 1" "parseInt10 ''10'' = Some 10"
    by (simp_all add: parseInt10_def isWhiteSpace_def isDigit_def digitValue_def Let_def)
  have query: "taskQuerySchema parseInt10 Map.empty =
      Inr \<lparr>q_page = 1, q_limit = 10, q_sortBy = by_createdAt, q_sortOrder = desc,
           q_status = None, q_priority = None\<rparr>"
    by (simp add: taskQuerySchema_def field_def schema_page_def schema_limit_def
        schema_sortBy_def schema_sortOrder_def schema_status_def schema_priority_def parse)
  have run: "listTasks parseInt10 2000 exampleStore (Map.empty(k \<mapsto> v)) =
      Inr \<lparr>data = [task2, task1],
           pagination = \<lparr>total = 2, page = 1, limit = 10, totalPages = Num 1,
                         hasNextPage = False, hasPrevPage = False\<rparr>\<rparr>"
    if "k \<notin> {''page'', ''limit'', ''sortBy'', ''sortOrder'', ''status'', ''priority''}" for k v
    unfolding listTasks_def taskQuerySchema_other_key [OF that] query
    by (simp add: getTasks_valid sortTasks_def ceiling_eq_iff example_defs)
  show ?thesis
    by (simp add: run) (simp add: example_defs)
qed

lemma TaskStatus_value_inj: "TaskStatus_value a = TaskStatus_value b \<longleftrightarrow> a = b"
  by (cases a; cases b) simp_all

lemma TaskPriority_value_inj: "TaskPriority_value a = TaskPriority_value b \<longleftrightarrow> a = b"
  by (cases a; cases b) simp_all

lemma query_filter_as_sent:
  assumes "taskQuerySchema parseInt raw = Inr query"
  shows "(\<lambda>t. (case q_status query of None \<Rightarrow> True | Some v \<Rightarrow> status t = v) \<and>
              (case q_priority query of None \<Rightarrow> True | Some v \<Rightarrow> priority t = v)) =
         (\<lambda>t. (case raw ''status'' of None \<Rightarrow> True | Some x \<Rightarrow> TaskStatus_value (status t) = x) \<and>
              (case raw ''priority'' of None \<Rightarrow> True | Some x \<Rightarrow> TaskPriority_value (priority t) = x))"
proof -
  from assms have st: "map_option TaskStatus_value (q_status query) = raw ''status''"
    and pr: "map_option TaskPriority_value (q_priority query) = raw ''priority''"
    by (simp_all add: taskQuerySchema_Inr schema_status_value schema_priority_value)
  show ?thesis
    unfolding st [symmetric] pr [symmetric]
    by (rule ext)
       (simp add: TaskStatus_value_inj TaskPriority_value_inj split: option.splits)
qed

text \<open>
  C8, amended. A list query that the schema accepts returns, as total, the number of
  stored tasks whose status is the query's status parameter (when it has one) and whose
  priority is the query's priority parameter (when it has one), and as page the page cut
  from exactly those tasks in sorted order. Any other parameter of the query, among them
  \<^verbatim>\<open>creatorId\<close>, \<^verbatim>\<open>assignedToId\<close> and \<^verbatim>\<open>overdue\<close>, changes nothing in the answer.
\<close>

theorem list_query_filters_status_and_priority:
  assumes "taskQuerySchema parseInt raw = Inr query"
  shows "(\<exists>r. listTasks parseInt nw s raw = Inr r \<and>
              total (pagination r) =
                int (length (filter
                  (\<lambda>t. (case raw ''status'' of None \<Rightarrow> True
                          | Some x \<Rightarrow> TaskStatus_value (status t) = x) \<and>
                       (case raw ''priority'' of None \<Rightarrow> True
                          | Some x \<Rightarrow> TaskPriority_value (priority t) = x))
                  (tasks s))) \<and>
              data r =
                take (nat (q_limit query)) (drop (nat ((q_page query - 1) * q_limit query))
                  (sortTasks (q_sortBy query) (q_sortOrder query)
                     (filter
                        (\<lambda>t. (case raw ''status'' of None \<Rightarrow> True
                                | Some x \<Rightarrow> TaskStatus_value (status t) = x) \<and>
                             (case raw ''priority'' of None \<Rightarrow> True
                                | Some x \<Rightarrow> TaskPriority_value (priority t) = x))
                        (tasks s))))) \<and>
         (\<forall>k v. k \<notin> {''page'', ''limit'', ''sortBy'', ''sortOrder'', ''status'', ''priority''} \<longrightarrow>
            listTasks parseInt nw s (raw(k \<mapsto> v)) = listTasks parseInt nw s raw)"
proof -
  from assms have range: "1 \<le> q_page query" "1 \<le> q_limit query"
    using taskQuerySchema_range [of parseInt raw query] by simp_all
  have run: "listTasks parseInt nw s raw = getTasks nw (tasks s) query"
    using assms by (simp add: listTasks_def)
  have page: "\<exists>r. listTasks parseInt nw s raw = Inr r \<and>
              total (pagination r) =
                int (length (filter
                  (\<lambda>t. (case raw ''status'' of None \<Rightarrow> True
                          | Some x \<Rightarrow> TaskStatus_value (status t) = x) \<and>
                       (case raw ''priority'' of None \<Rightarrow> True
                          | Some x \<Rightarrow> TaskPriority_value (priority t) = x))
                  (tasks s))) \<and>
              data r =
                take (nat (q_limit query)) (drop (nat ((q_page query - 1) * q_limit query))
                  (sortTasks (q_sortBy query) (q_sortOrder query)
                     (filter
                        (\<lambda>t. (case raw ''status'' of None \<Rightarrow> True
                                | Some x \<Rightarrow> TaskStatus_value (status t) = x) \<and>
                             (case raw ''priority'' of None \<Rightarrow> True
                                | Some x \<Rightarrow> TaskPriority_value (priority t) = x))
                        (tasks s))))"
    unfolding run getTasks_valid [OF range] query_filter_as_sent [OF assms]
    by simp
  have other: "listTasks parseInt nw s (raw(k \<mapsto> v)) = listTasks parseInt nw s raw"
    if "k \<notin> {''page'', ''limit'', ''sortBy'', ''sortOrder'', ''status'', ''priority''}" for k v
    unfolding listTasks_def taskQuerySchema_other_key [OF that] ..
  from page other show ?thesis
    by blast
qed

theorem list_query_filters_status_and_priority_witness:
  "taskQuerySchema parseInt10 [''priority'' \<mapsto> ''Low''] =
     Inr \<lparr>q_page = 1, q_limit = 10, q_sortBy = by_createdAt, q_sortOrder = desc,
          q_status = None, q_priority = Some LOW\<rparr> \<and>
   map priority (tasks exampleStore) = [HIGH, LOW] \<and>
   map_sum id (\<lambda>r. (data r, total (pagination r)))
       (listTasks parseInt10 2000 exampleStore [''priority'' \<mapsto> ''Low'']) =
     Inr ([task2], 1) \<and>
   listTasks parseInt10 2000 exampleStore [''priority'' \<mapsto> ''Low'', ''creatorId'' \<mapsto> alice] =
     listTasks parseInt10 2000 exampleStore [''priority'' \<mapsto> ''Low'']"
proof -
  have parse: "parseInt10 ''1'' = Some 1" "parseInt10 ''10'' = Some 10"
    by (simp_all add: parseInt10_def isWhiteSpace_def isDigit_def digitValue_def Let_def)
  have query: "taskQuerySchema parseInt10 [''priority'' \<mapsto> ''Low''] =
      Inr \<lparr>q_page = 1, q_limit = 10, q_sortBy = by_createdAt, q_sortOrder = desc,
           q_status = None, q_priority = Some LOW\<rparr>"
    by (simp add: taskQuerySchema_def field_def schema_page_def schema_limit_def
        schema_sortBy_def schema_sortOrder_def schema_status_def schema_priority_def parse)
  have key: "''creatorId'' \<notin> {''page'', ''limit'', ''sortBy'', ''sortOrder'', ''status'', ''priority''}"
    by simp
  from list_query_filters_status_and_priority [OF query, of 2000 exampleStore]
  obtain r where r: "listTasks parseInt10 2000 exampleStore [''priority'' \<mapsto> ''Low''] = Inr r"
    and tot: "total (pagination r) = 1" and page: "data r = [task2]"
    and other: "listTasks parseInt10 2000 exampleStore [''priority'' \<mapsto> ''Low'', ''creatorId'' \<mapsto> alice] =
      listTasks parseInt10 2000 exampleStore [''priority'' \<mapsto> ''Low'']"
    using key by (auto simp: sortTasks_def example_defs)
  from query r tot page other show ?thesis
    by (simp add: example_defs)
qed

end
